theory Spec2Isabelle
  imports Main "HOL-Library.Word"
begin

section \<open>Go library functions the generators call\<close>

text \<open>
  Go strings are byte sequences; \<^typ>\<open>string\<close> is a list of 8-bit characters.
  \<open>strings.Join(elems, sep)\<close> concatenates the elements with the separator between
  each two of them.
\<close>

fun Join :: "string list \<Rightarrow> string \<Rightarrow> string" where
  "Join [] sep = []"
| "Join [a] sep = a"
| "Join (a # b # rest) sep = a @ sep @ Join (b # rest) sep"

text \<open>
  \<open>strconv.Itoa\<close>, which is also what the verb \<open>%d\<close> of \<open>fmt.Sprintf\<close> prints:
  the decimal digits of the number, after a minus sign when it is negative.
\<close>

definition digit :: "nat \<Rightarrow> char" where
  "digit d = ''0123456789'' ! d"

fun decimal :: "nat \<Rightarrow> string" where
  "decimal n = (if n < 10 then [digit n] else decimal (n div 10) @ [digit (n mod 10)])"

declare decimal.simps [simp del]

definition Itoa :: "int \<Rightarrow> string" where
  "Itoa i = (if i < 0 then CHR ''-'' # decimal (nat (- i)) else decimal (nat i))"

text \<open>
  \<open>intstr.IntOrString\<close> of the Kubernetes client library
  (\<open>k8s.io/client-go/pkg/util/intstr\<close>): a struct of a type tag (\<open>Int\<close> is the zero
  value of the tag), an \<open>int32\<close> and a string. Its method \<open>String()\<close> returns
  \<open>StrVal\<close> when the tag is \<open>String\<close> and \<open>strconv.Itoa(IntValue())\<close> otherwise, where
  \<open>IntValue()\<close> is \<open>int(IntVal)\<close> under the tag \<open>Int\<close>. The source itself relies on
  this: it uses \<open>TargetPort.String()\<close> as the regex that a numeric port number must match.
  \<open>intstr.FromInt(n)\<close> builds the struct with the tag \<open>Int\<close> and \<open>IntVal = int32(n)\<close>
  (the source calls it on the constants 9093 and 6783 only, so the argument is the
  \<open>int32\<close> here), \<open>intstr.FromString(s)\<close> the one with the tag \<open>String\<close> and
  \<open>StrVal = s\<close>. The zero value of the struct is \<open>FromInt 0\<close>.
\<close>

datatype intstr_Type = intstr_Int | intstr_String

record IntOrString =
  Type :: intstr_Type
  IntVal :: "32 word"
  StrVal :: string

definition IntOrString_String :: "IntOrString \<Rightarrow> string" where
  "IntOrString_String x =
     (if Type x = intstr_String then StrVal x else Itoa (sint (IntVal x)))"

definition FromInt :: "32 word \<Rightarrow> IntOrString" where
  "FromInt n = \<lparr>Type = intstr_Int, IntVal = n, StrVal = []\<rparr>"

definition FromString :: "string \<Rightarrow> IntOrString" where
  "FromString s = \<lparr>Type = intstr_String, IntVal = 0, StrVal = s\<rparr>"

text \<open>
  The constants of \<open>metav1.LabelSelectorOperator\<close>, a string type: an operator outside
  these four is a value the type admits.
\<close>

definition LabelSelectorOpIn :: string where
  "LabelSelectorOpIn = ''In''"

definition LabelSelectorOpNotIn :: string where
  "LabelSelectorOpNotIn = ''NotIn''"

definition LabelSelectorOpExists :: string where
  "LabelSelectorOpExists = ''Exists''"

definition LabelSelectorOpDoesNotExist :: string where
  "LabelSelectorOpDoesNotExist = ''DoesNotExist''"

section \<open>The label name sanitizer\<close>

text \<open>
  \<open>invalidLabelCharRE\<close> is the regular expression \<open>[^a-zA-Z0-9_]\<close>, and
  \<open>sanitizeLabelName\<close> replaces every match by an underscore. Go's \<open>regexp\<close> reads its
  input rune by rune: a well-formed UTF-8 sequence of two to four bytes is one rune (one
  match, one underscore), and a byte that starts no well-formed sequence is the rune
  U+FFFD of width one. \<open>runeWidth\<close> is the number of bytes of the first rune, by the table
  of \<open>utf8.DecodeRuneInString\<close>.
\<close>

definition validLabelChar :: "char \<Rightarrow> bool" where
  "validLabelChar c =
     (let n = (of_char c :: nat)
      in (97 \<le> n \<and> n \<le> 122) \<or> (65 \<le> n \<and> n \<le> 90) \<or> (48 \<le> n \<and> n \<le> 57) \<or> n = 95)"

definition byteIn :: "nat \<Rightarrow> nat \<Rightarrow> char list \<Rightarrow> nat \<Rightarrow> bool" where
  "byteIn lo hi s k = (k < length s \<and> lo \<le> (of_char (s ! k) :: nat) \<and> (of_char (s ! k) :: nat) \<le> hi)"

definition runeWidth :: "string \<Rightarrow> nat" where
  "runeWidth s =
     (if s = [] then 0
      else
        (let b = (of_char (hd s) :: nat) in
         if b < 128 then 1
         else if 194 \<le> b \<and> b \<le> 223 then (if byteIn 128 191 s 1 then 2 else 1)
         else if 224 \<le> b \<and> b \<le> 239 then
           (if byteIn (if b = 224 then 160 else 128) (if b = 237 then 159 else 191) s 1
               \<and> byteIn 128 191 s 2 then 3 else 1)
         else if 240 \<le> b \<and> b \<le> 244 then
           (if byteIn (if b = 240 then 144 else 128) (if b = 244 then 143 else 191) s 1
               \<and> byteIn 128 191 s 2 \<and> byteIn 128 191 s 3 then 4 else 1)
         else 1))"

fun sanitizeLabelName :: "string \<Rightarrow> string" where
  "sanitizeLabelName [] = []"
| "sanitizeLabelName (c # cs) =
     (if validLabelChar c then c # sanitizeLabelName cs
      else CHR ''_'' # sanitizeLabelName (drop (runeWidth (c # cs) - 1) cs))"

section \<open>The configuration document\<close>

text \<open>
  The generators assemble the document from \<open>map[string]interface{}\<close> values. The values
  that occur are strings, slices (of strings, of maps, of \<open>interface{}\<close>) and maps keyed
  by strings; a map keeps which keys are present. A \<open>[]string\<close> is a \<open>Seq\<close> of \<open>Str\<close>.
\<close>

datatype val = Str string | Seq "val list" | Dict "string \<Rightarrow> val option"

text \<open>Reading a document: the value under a key of a map, and the elements of a slice.\<close>

definition field :: "val \<Rightarrow> string \<Rightarrow> val option" where
  "field v k = (case v of Dict d \<Rightarrow> d k | _ \<Rightarrow> None)"

definition elements :: "val \<Rightarrow> val list" where
  "elements v = (case v of Seq xs \<Rightarrow> xs | _ \<Rightarrow> [])"

definition relabel_configs :: "val \<Rightarrow> val list" where
  "relabel_configs job = (case field job ''relabel_configs'' of Some v \<Rightarrow> elements v | None \<Rightarrow> [])"

section \<open>The monitoring objects\<close>

text \<open>
  Modelled from the spec: the types of the package \<open>pkg/spec\<close> (\<open>ServiceMonitor\<close>,
  \<open>Endpoint\<close>, \<open>NamespaceSelector\<close>, \<open>Prometheus\<close>, \<open>AlertmanagerEndpoints\<close>), whose
  declarations are not among the source files, and \<open>metav1.LabelSelector\<close>. The fields
  are the ones the generators read, under the names they read them by; \<open>Name\<close> and
  \<open>Namespace\<close> of a monitor are the promoted fields of its object metadata. A Go map
  is a partial function (a nil map has no entries). The pointers the generators
  receive are taken to point at an object: a nil monitor is outside this model.
\<close>

record LabelSelectorRequirement =
  Key :: string
  Operator :: string
  Values :: "string list"

record LabelSelector =
  MatchLabels :: "string \<rightharpoonup> string"
  MatchExpressions :: "LabelSelectorRequirement list"

record NamespaceSelector =
  Any :: bool
  MatchNames :: "string list"

record Endpoint =
  Port :: string
  TargetPort :: IntOrString
  Path :: string
  Scheme :: string
  Interval :: string

record ServiceMonitorSpec =
  JobLabel :: string
  Selector :: LabelSelector
  Endpoints :: "Endpoint list"
  NamespaceSelector :: NamespaceSelector

record ServiceMonitor =
  Name :: string
  Namespace :: string
  Spec :: ServiceMonitorSpec

record AlertmanagerEndpoints =
  Namespace :: string
  Name :: string
  Port :: IntOrString
  Scheme :: string

record AlertingSpec =
  Alertmanagers :: "AlertmanagerEndpoints list"

record PrometheusSpec =
  Alerting :: AlertingSpec

record Prometheus =
  Spec :: PrometheusSpec

section \<open>Ranging over a Go map\<close>

text \<open>
  \<open>for k, v := range m\<close> over a map visits every entry once, in an order the language
  leaves unspecified and the runtime varies from one loop to the next. The order is
  therefore an input of the model: a function from the map to the list of its entries
  in the order this loop visits them. \<open>rangesOver\<close> says that a list is such a visit of
  a map.
\<close>

definition rangesOver :: "('k \<rightharpoonup> 'v) \<Rightarrow> ('k \<times> 'v) list \<Rightarrow> bool" where
  "rangesOver m kvs = (distinct (map fst kvs) \<and> map_of kvs = m)"

section \<open>generateServiceMonitorConfig\<close>

text \<open>
  The function appends to \<open>relabelings\<close> block by block. Each block is a function from
  the slice so far to the slice after it, in the order of the source.

  Exact label matches (lines 90 to 96): one keep rule per entry of \<open>MatchLabels\<close>, in the
  order the loop visits them.
\<close>

fun matchLabelsLoop :: "(string \<times> string) list \<Rightarrow> val list \<Rightarrow> val list" where
  "matchLabelsLoop [] relabelings = relabelings"
| "matchLabelsLoop ((k, v) # rest) relabelings =
     matchLabelsLoop rest (relabelings @
       [Dict [''action'' \<mapsto> Str ''keep'',
              ''source_labels'' \<mapsto> Seq [Str (''__meta_kubernetes_service_label_'' @ sanitizeLabelName k)],
              ''regex'' \<mapsto> Str v]])"

text \<open>Set based label matching (lines 99 to 126): the switch has no default case.\<close>

fun matchExpressionsLoop :: "LabelSelectorRequirement list \<Rightarrow> val list \<Rightarrow> val list" where
  "matchExpressionsLoop [] relabelings = relabelings"
| "matchExpressionsLoop (exp # rest) relabelings =
     matchExpressionsLoop rest
       (if Operator exp = LabelSelectorOpIn then
          relabelings @
            [Dict [''action'' \<mapsto> Str ''keep'',
                   ''source_labels'' \<mapsto> Seq [Str (''__meta_kubernetes_service_label_'' @ sanitizeLabelName (Key exp))],
                   ''regex'' \<mapsto> Str (Join (Values exp) ''|'')]]
        else if Operator exp = LabelSelectorOpNotIn then
          relabelings @
            [Dict [''action'' \<mapsto> Str ''drop'',
                   ''source_labels'' \<mapsto> Seq [Str (''__meta_kubernetes_service_label_'' @ sanitizeLabelName (Key exp))],
                   ''regex'' \<mapsto> Str (Join (Values exp) ''|'')]]
        else if Operator exp = LabelSelectorOpExists then
          relabelings @
            [Dict [''action'' \<mapsto> Str ''keep'',
                   ''source_labels'' \<mapsto> Seq [Str (''__meta_kubernetes_service_label_'' @ sanitizeLabelName (Key exp))],
                   ''regex'' \<mapsto> Str ''.+'']]
        else if Operator exp = LabelSelectorOpDoesNotExist then
          relabelings @
            [Dict [''action'' \<mapsto> Str ''drop'',
                   ''source_labels'' \<mapsto> Seq [Str (''__meta_kubernetes_service_label_'' @ sanitizeLabelName (Key exp))],
                   ''regex'' \<mapsto> Str ''.+'']]
        else relabelings)"

text \<open>The namespace selection (lines 140 to 154).\<close>

definition namespaceFilter :: "ServiceMonitor \<Rightarrow> val list \<Rightarrow> val list" where
  "namespaceFilter m relabelings =
     (let nsel = NamespaceSelector (ServiceMonitor.Spec m) in
      if \<not> Any nsel \<and> length (MatchNames nsel) = 0 then
        relabelings @
          [Dict [''action'' \<mapsto> Str ''keep'',
                 ''source_labels'' \<mapsto> Seq [Str ''__meta_kubernetes_namespace''],
                 ''regex'' \<mapsto> Str (ServiceMonitor.Namespace m)]]
      else if length (MatchNames nsel) > 0 then
        relabelings @
          [Dict [''action'' \<mapsto> Str ''keep'',
                 ''source_labels'' \<mapsto> Seq [Str ''__meta_kubernetes_namespace''],
                 ''regex'' \<mapsto> Str (Join (MatchNames nsel) ''|'')]]
      else relabelings)"

text \<open>The port of the endpoint (lines 157 to 175).\<close>

definition portFilter :: "Endpoint \<Rightarrow> val list \<Rightarrow> val list" where
  "portFilter ep relabelings =
     (if Endpoint.Port ep \<noteq> [] then
        relabelings @
          [Dict [''action'' \<mapsto> Str ''keep'',
                 ''source_labels'' \<mapsto> Seq [Str ''__meta_kubernetes_endpoint_port_name''],
                 ''regex'' \<mapsto> Str (Endpoint.Port ep)]]
      else if StrVal (TargetPort ep) \<noteq> [] then
        relabelings @
          [Dict [''action'' \<mapsto> Str ''keep'',
                 ''source_labels'' \<mapsto> Seq [Str ''__meta_kubernetes_container_port_name''],
                 ''regex'' \<mapsto> Str (IntOrString_String (TargetPort ep))]]
      else if IntVal (TargetPort ep) \<noteq> 0 then
        relabelings @
          [Dict [''action'' \<mapsto> Str ''keep'',
                 ''source_labels'' \<mapsto> Seq [Str ''__meta_kubernetes_container_port_number''],
                 ''regex'' \<mapsto> Str (IntOrString_String (TargetPort ep))]]
      else relabelings)"

text \<open>
  Namespace, service and pod labels relabelled into proper labels (lines 178 to 198):
  four rules, always.
\<close>

definition properLabels :: "val list \<Rightarrow> val list" where
  "properLabels relabelings =
     relabelings @
       [Dict [''source_labels'' \<mapsto> Seq [Str ''__meta_kubernetes_namespace''],
              ''target_label'' \<mapsto> Str ''namespace''],
        Dict [''action'' \<mapsto> Str ''labelmap'',
              ''regex'' \<mapsto> Str ''__meta_kubernetes_service_label_(.+)'',
              ''replacement'' \<mapsto> Str ''svc_$1''],
        Dict [''action'' \<mapsto> Str ''replace'',
              ''target_label'' \<mapsto> Str ''__meta_kubernetes_pod_label_pod_template_hash'',
              ''replacement'' \<mapsto> Str []],
        Dict [''action'' \<mapsto> Str ''labelmap'',
              ''regex'' \<mapsto> Str ''__meta_kubernetes_pod_label_(.+)'',
              ''replacement'' \<mapsto> Str ''pod_$1'']]"

text \<open>The job name from the service name and the port (lines 203 to 215).\<close>

definition defaultJobName :: "Endpoint \<Rightarrow> val list \<Rightarrow> val list" where
  "defaultJobName ep relabelings =
     (if Endpoint.Port ep \<noteq> [] then
        relabelings @
          [Dict [''source_labels'' \<mapsto> Seq [Str ''__meta_kubernetes_service_name''],
                 ''target_label'' \<mapsto> Str ''job'',
                 ''replacement'' \<mapsto> Str (''${1}-'' @ Endpoint.Port ep)]]
      else if IntOrString_String (TargetPort ep) \<noteq> [] then
        relabelings @
          [Dict [''source_labels'' \<mapsto> Seq [Str ''__meta_kubernetes_service_name''],
                 ''target_label'' \<mapsto> Str ''job'',
                 ''replacement'' \<mapsto> Str (''${1}-'' @ IntOrString_String (TargetPort ep))]]
      else relabelings)"

text \<open>The job name from the job label of the monitor (lines 218 to 234).\<close>

definition jobLabelName :: "ServiceMonitor \<Rightarrow> Endpoint \<Rightarrow> val list \<Rightarrow> val list" where
  "jobLabelName m ep relabelings =
     (if JobLabel (ServiceMonitor.Spec m) \<noteq> [] then
        (if Endpoint.Port ep \<noteq> [] then
           relabelings @
             [Dict [''source_labels'' \<mapsto> Seq [Str (''__meta_kubernetes_service_label_'' @ sanitizeLabelName (JobLabel (ServiceMonitor.Spec m)))],
                    ''target_label'' \<mapsto> Str ''job'',
                    ''regex'' \<mapsto> Str ''(.+)'',
                    ''replacement'' \<mapsto> Str (''${1}-'' @ Endpoint.Port ep)]]
         else if IntOrString_String (TargetPort ep) \<noteq> [] then
           relabelings @
             [Dict [''source_labels'' \<mapsto> Seq [Str (''__meta_kubernetes_service_label_'' @ sanitizeLabelName (JobLabel (ServiceMonitor.Spec m)))],
                    ''target_label'' \<mapsto> Str ''job'',
                    ''regex'' \<mapsto> Str ''(.+)'',
                    ''replacement'' \<mapsto> Str (''${1}-'' @ IntOrString_String (TargetPort ep))]]
         else relabelings)
      else relabelings)"

text \<open>
  The function itself. \<open>order\<close> is the order in which the loop over \<open>MatchLabels\<close> of
  this call visits the map; \<open>i\<close> is the index of the endpoint, a Go \<open>int\<close>.
\<close>

definition generateServiceMonitorConfig ::
  "((string \<rightharpoonup> string) \<Rightarrow> (string \<times> string) list) \<Rightarrow> ServiceMonitor \<Rightarrow> Endpoint \<Rightarrow> int \<Rightarrow> val" where
  "generateServiceMonitorConfig order m ep i =
     (let cfg = [''job_name'' \<mapsto> Str (ServiceMonitor.Namespace m @ ''/'' @ ServiceMonitor.Name m @ ''/'' @ Itoa i),
                 ''kubernetes_sd_configs'' \<mapsto> Seq [Dict [''role'' \<mapsto> Str ''endpoints'']]];
          cfg = (if Interval ep \<noteq> [] then cfg(''scrape_interval'' \<mapsto> Str (Interval ep)) else cfg);
          cfg = (if Path ep \<noteq> [] then cfg(''metrics_path'' \<mapsto> Str (Path ep)) else cfg);
          cfg = (if Endpoint.Scheme ep \<noteq> [] then cfg(''scheme'' \<mapsto> Str (Endpoint.Scheme ep)) else cfg);
          relabelings = [];
          relabelings = matchLabelsLoop (order (MatchLabels (Selector (ServiceMonitor.Spec m)))) relabelings;
          relabelings = matchExpressionsLoop (MatchExpressions (Selector (ServiceMonitor.Spec m))) relabelings;
          relabelings = namespaceFilter m relabelings;
          relabelings = portFilter ep relabelings;
          relabelings = properLabels relabelings;
          relabelings = defaultJobName ep relabelings;
          relabelings = jobLabelName m ep relabelings
      in Dict (cfg(''relabel_configs'' \<mapsto> Seq relabelings)))"

section \<open>generateAlertmanagerConfig\<close>

definition generateAlertmanagerConfig :: "AlertmanagerEndpoints \<Rightarrow> val" where
  "generateAlertmanagerConfig am0 =
     (let am = (if AlertmanagerEndpoints.Scheme am0 = [] then am0\<lparr>AlertmanagerEndpoints.Scheme := ''http''\<rparr> else am0);
          cfg = [''kubernetes_sd_configs'' \<mapsto> Seq [Dict [''role'' \<mapsto> Str ''endpoints'']],
                 ''scheme'' \<mapsto> Str (AlertmanagerEndpoints.Scheme am)];
          relabelings = [];
          relabelings = relabelings @
            [Dict [''action'' \<mapsto> Str ''keep'',
                   ''source_labels'' \<mapsto> Seq [Str ''__meta_kubernetes_service_name''],
                   ''regex'' \<mapsto> Str (AlertmanagerEndpoints.Name am)]];
          relabelings = relabelings @
            [Dict [''action'' \<mapsto> Str ''keep'',
                   ''source_labels'' \<mapsto> Seq [Str ''__meta_kubernetes_namespace''],
                   ''regex'' \<mapsto> Str (AlertmanagerEndpoints.Namespace am)]];
          relabelings =
            (if StrVal (AlertmanagerEndpoints.Port am) \<noteq> [] then
               relabelings @
                 [Dict [''action'' \<mapsto> Str ''keep'',
                        ''source_labels'' \<mapsto> Seq [Str ''__meta_kubernetes_endpoint_port_name''],
                        ''regex'' \<mapsto> Str (IntOrString_String (AlertmanagerEndpoints.Port am))]]
             else if IntVal (AlertmanagerEndpoints.Port am) \<noteq> 0 then
               relabelings @
                 [Dict [''action'' \<mapsto> Str ''keep'',
                        ''source_labels'' \<mapsto> Seq [Str ''__meta_kubernetes_container_port_number''],
                        ''regex'' \<mapsto> Str (IntOrString_String (AlertmanagerEndpoints.Port am))]]
             else relabelings)
      in Dict (cfg(''relabel_configs'' \<mapsto> Seq relabelings)))"

section \<open>generateConfig\<close>







definition atMostOneEntry :: "('k \<rightharpoonup> 'v) \<Rightarrow> bool" where
  "atMostOneEntry m = (\<forall>k k'. m k \<noteq> None \<and> m k' \<noteq> None \<longrightarrow> k = k')"




text \<open>The kinds of relabel rule the statements below speak of.\<close>

definition jobRewriteRule :: "val \<Rightarrow> bool" where
  "jobRewriteRule r = (field r ''target_label'' = Some (Str ''job''))"

definition namespaceFilterRule :: "val \<Rightarrow> bool" where
  "namespaceFilterRule r =
     (field r ''action'' = Some (Str ''keep'') \<and>
      field r ''source_labels'' = Some (Seq [Str ''__meta_kubernetes_namespace'']))"

definition portFilterRule :: "val \<Rightarrow> bool" where
  "portFilterRule r =
     (field r ''source_labels'' = Some (Seq [Str ''__meta_kubernetes_endpoint_port_name'']) \<or>
      field r ''source_labels'' = Some (Seq [Str ''__meta_kubernetes_container_port_name'']) \<or>
      field r ''source_labels'' = Some (Seq [Str ''__meta_kubernetes_container_port_number'']))"

section \<open>The Alertmanager objects and the Kubernetes manifests\<close>

text \<open>
  Modelled from the spec: \<open>spec.Alertmanager\<close> with its \<open>AlertmanagerSpec\<close> and
  \<open>StorageSpec\<close> (package \<open>pkg/spec\<close>, not among the source files), with the fields
  \<open>makeStatefulSet\<close> reads. The Kubernetes API structs (\<open>v1\<close>, \<open>v1beta1\<close>) are records of
  the fields the source sets; the fields it leaves out hold Go's zero value in every
  result and are not listed. A pointer field is an option, a nil slice the empty
  list, a nil map the empty map. \<open>int32\<close> is a 32-bit word read as signed.
  A \<open>resource.Quantity\<close> is kept as the text it was parsed from.
\<close>

datatype Quantity = MustParse string

record ResourceRequirements =
  Limits :: "string \<rightharpoonup> Quantity"
  Requests :: "string \<rightharpoonup> Quantity"

record StorageSpec =
  Class :: string
  Selector :: "LabelSelector option"
  Resources :: ResourceRequirements

record AlertmanagerSpec =
  Version :: string
  BaseImage :: string
  Replicas :: "32 word"
  Storage :: "StorageSpec option"

record Alertmanager =
  Name :: string
  Namespace :: string
  Spec :: AlertmanagerSpec

record ObjectMeta =
  Name :: string
  Labels :: "string \<rightharpoonup> string"
  Annotations :: "string \<rightharpoonup> string"

record ContainerPort =
  Name :: string
  ContainerPort :: "32 word"
  Protocol :: string

record VolumeMount =
  Name :: string
  ReadOnly :: bool
  MountPath :: string
  SubPath :: string

record Container =
  Name :: string
  Image :: string
  Command :: "string list"
  Args :: "string list"
  Ports :: "ContainerPort list"
  VolumeMounts :: "VolumeMount list"
  Resources :: ResourceRequirements

record LocalObjectReference =
  Name :: string

record ConfigMapVolumeSource =
  LocalObjectReference :: LocalObjectReference

record EmptyDirVolumeSource =
  Medium :: string

record VolumeSource =
  EmptyDir :: "EmptyDirVolumeSource option"
  ConfigMap :: "ConfigMapVolumeSource option"

record Volume =
  Name :: string
  VolumeSource :: VolumeSource

record PodSpec =
  TerminationGracePeriodSeconds :: "64 word option"
  Containers :: "Container list"
  Volumes :: "Volume list"

record PodTemplateSpec =
  ObjectMeta :: ObjectMeta
  Spec :: PodSpec

record PersistentVolumeClaimSpec =
  AccessModes :: "string list"
  Resources :: ResourceRequirements
  Selector :: "LabelSelector option"

record PersistentVolumeClaim =
  ObjectMeta :: ObjectMeta
  Spec :: PersistentVolumeClaimSpec

record StatefulSetSpec =
  ServiceName :: string
  Replicas :: "32 word option"
  Template :: PodTemplateSpec
  VolumeClaimTemplates :: "PersistentVolumeClaim list"

record StatefulSet =
  ObjectMeta :: ObjectMeta
  Spec :: StatefulSetSpec

record ServicePort =
  Name :: string
  Port :: "32 word"
  TargetPort :: IntOrString
  Protocol :: string

record ServiceSpec =
  ClusterIP :: string
  Ports :: "ServicePort list"
  Selector :: "string \<rightharpoonup> string"

record Service =
  ObjectMeta :: ObjectMeta
  Spec :: ServiceSpec

text \<open>The constants \<open>v1.ProtocolTCP\<close> and \<open>v1.ReadWriteOnce\<close> of the Kubernetes API.\<close>

definition ProtocolTCP :: string where
  "ProtocolTCP = ''TCP''"

definition ReadWriteOnce :: string where
  "ReadWriteOnce = ''ReadWriteOnce''"

section \<open>makeStatefulSetSpec\<close>

text \<open>
  The loop of lines 122 to 124: \<open>for i := int32(0); i < replicas; i++\<close>, with the
  signed comparison and the wrapping increment of \<open>int32\<close>. While \<open>i < replicas\<close> the
  increment cannot overflow, which is the termination argument.
\<close>

function peersLoop :: "string \<Rightarrow> string \<Rightarrow> 32 word \<Rightarrow> 32 word \<Rightarrow> string list \<Rightarrow> string list" where
  "peersLoop ns name replicas i commands =
     (if i <s replicas then
        peersLoop ns name replicas (i + 1)
          (commands @ [''-mesh.peer='' @ name @ ''-'' @ Itoa (sint i) @ ''.'' @ ''alertmanager'' @ ''.'' @ ns @ ''.svc''])
      else commands)"
  by pat_completeness auto
termination
proof (relation "measure (\<lambda>(ns, name, replicas, i, commands). nat (sint replicas - sint i))")
  show "wf (measure (\<lambda>(ns, name, replicas, i, commands). nat (sint replicas - sint i)))"
    by simp
next
  fix ns name :: string and replicas i :: "32 word" and commands :: "string list"
  assume less: "i <s replicas"
  have lt: "sint i < sint replicas"
    using less by (simp add: word_sless_alt)
  have "sint replicas < 2 ^ 31"
    using sint_lt [of replicas] by simp
  moreover have "- (2 ^ 31) \<le> sint i"
    using sint_ge [of i] by simp
  ultimately have "signed_take_bit 31 (sint i + 1) = sint i + 1"
    using lt by (intro signed_take_bit_int_eq_self) simp_all
  moreover have "sint (i + 1) = signed_take_bit 31 (sint i + 1)"
    using sint_word_ariths(1) [of i 1] by simp
  ultimately have "sint (i + 1) = sint i + 1"
    by simp
  then show "((ns, name, replicas, i + 1,
          commands @ [''-mesh.peer='' @ name @ ''-'' @ Itoa (sint i) @ ''.'' @ ''alertmanager'' @ ''.'' @ ns @ ''.svc'']),
         (ns, name, replicas, i, commands))
        \<in> measure (\<lambda>(ns, name, replicas, i, commands). nat (sint replicas - sint i))"
    using lt by simp
qed

declare peersLoop.simps [simp del]

definition makeStatefulSetSpec ::
  "string \<Rightarrow> string \<Rightarrow> string \<Rightarrow> string \<Rightarrow> 32 word \<Rightarrow> StatefulSetSpec" where
  "makeStatefulSetSpec ns name image' version replicas =
     (let commands =
            [''/bin/alertmanager'',
             ''-config.file='' @ ''/etc/alertmanager/config/alertmanager.yaml'',
             ''-web.listen-address=:'' @ Itoa 9093,
             ''-mesh.listen-address=:'' @ Itoa 6783,
             ''-storage.path='' @ ''/etc/alertmanager/data''];
          commands = peersLoop ns name replicas 0 commands;
          terminationGracePeriod = (0 :: 64 word)
      in \<lparr>ServiceName = ''alertmanager'',
          StatefulSetSpec.Replicas = Some replicas,
          Template =
            \<lparr>PodTemplateSpec.ObjectMeta =
               \<lparr>ObjectMeta.Name = [],
                Labels = [''app'' \<mapsto> ''alertmanager'', ''alertmanager'' \<mapsto> name],
                Annotations = Map.empty\<rparr>,
             PodTemplateSpec.Spec =
               \<lparr>TerminationGracePeriodSeconds = Some terminationGracePeriod,
                Containers =
                  [\<lparr>Container.Name = name,
                    Image = image',
                    Command = commands,
                    Args = [],
                    Container.Ports =
                      [\<lparr>ContainerPort.Name = ''web'', ContainerPort = 9093,
                        ContainerPort.Protocol = ProtocolTCP\<rparr>,
                       \<lparr>ContainerPort.Name = ''mesh'', ContainerPort = 6783,
                        ContainerPort.Protocol = ProtocolTCP\<rparr>],
                    VolumeMounts =
                      [\<lparr>VolumeMount.Name = ''config-volume'', ReadOnly = False,
                        MountPath = ''/etc/alertmanager/config'', SubPath = []\<rparr>,
                       \<lparr>VolumeMount.Name = name @ ''-db'', ReadOnly = False,
                        MountPath = ''/var/alertmanager/data'', SubPath = ''alertmanager-db''\<rparr>],
                    Container.Resources = \<lparr>Limits = Map.empty, Requests = Map.empty\<rparr>\<rparr>,
                   \<lparr>Container.Name = ''config-reloader'',
                    Image = ''jimmidyson/configmap-reload'',
                    Command = [],
                    Args =
                      [''-webhook-url=http://localhost:9093/-/reload'',
                       ''-volume-dir=/etc/alertmanager/config''],
                    Container.Ports = [],
                    VolumeMounts =
                      [\<lparr>VolumeMount.Name = ''config-volume'', ReadOnly = True,
                        MountPath = ''/etc/alertmanager/config'', SubPath = []\<rparr>],
                    Container.Resources =
                      \<lparr>Limits = [''cpu'' \<mapsto> MustParse ''5m'', ''memory'' \<mapsto> MustParse ''10Mi''],
                       Requests = Map.empty\<rparr>\<rparr>],
                Volumes =
                  [\<lparr>Volume.Name = ''config-volume'',
                    VolumeSource =
                      \<lparr>EmptyDir = None,
                       ConfigMap = Some \<lparr>LocalObjectReference = \<lparr>LocalObjectReference.Name = name\<rparr>\<rparr>\<rparr>\<rparr>]\<rparr>\<rparr>,
          VolumeClaimTemplates = []\<rparr>)"

section \<open>makeStatefulSet\<close>

text \<open>
  \<open>am\<close> is dereferenced at once, so it points at an object; \<open>old\<close> is compared with
  nil, so it is an option.
\<close>

definition makeStatefulSet :: "Alertmanager \<Rightarrow> StatefulSet option \<Rightarrow> StatefulSet" where
  "makeStatefulSet am old =
     (let baseImage = BaseImage (Alertmanager.Spec am);
          baseImage = (if baseImage = [] then ''quay.io/prometheus/alertmanager'' else baseImage);
          version = Version (Alertmanager.Spec am);
          version = (if version = [] then ''v0.5.1'' else version);
          replicas = AlertmanagerSpec.Replicas (Alertmanager.Spec am);
          replicas = (if replicas <s 1 then 1 else replicas);
          image' = baseImage @ '':'' @ version;
          statefulset =
            \<lparr>StatefulSet.ObjectMeta =
               \<lparr>ObjectMeta.Name = Alertmanager.Name am, Labels = Map.empty, Annotations = Map.empty\<rparr>,
             StatefulSet.Spec =
               makeStatefulSetSpec (Alertmanager.Namespace am) (Alertmanager.Name am) image' version replicas\<rparr>;
          statefulset =
            (case Storage (Alertmanager.Spec am) of
               None \<Rightarrow>
                 statefulset\<lparr>StatefulSet.Spec := (StatefulSet.Spec statefulset)
                   \<lparr>Template := (Template (StatefulSet.Spec statefulset))
                     \<lparr>PodTemplateSpec.Spec := (PodTemplateSpec.Spec (Template (StatefulSet.Spec statefulset)))
                       \<lparr>Volumes := Volumes (PodTemplateSpec.Spec (Template (StatefulSet.Spec statefulset))) @
                          [\<lparr>Volume.Name = Alertmanager.Name am @ ''-db'',
                            VolumeSource = \<lparr>EmptyDir = Some \<lparr>Medium = []\<rparr>, ConfigMap = None\<rparr>\<rparr>]\<rparr>\<rparr>\<rparr>\<rparr>
             | Some vc \<Rightarrow>
                 (let pvc =
                        \<lparr>PersistentVolumeClaim.ObjectMeta =
                           \<lparr>ObjectMeta.Name = Alertmanager.Name am @ ''-db'',
                            Labels = Map.empty, Annotations = Map.empty\<rparr>,
                         PersistentVolumeClaim.Spec =
                           \<lparr>AccessModes = [ReadWriteOnce],
                            PersistentVolumeClaimSpec.Resources = StorageSpec.Resources vc,
                            PersistentVolumeClaimSpec.Selector = StorageSpec.Selector vc\<rparr>\<rparr>;
                      pvc =
                        (if length (Class vc) > 0 then
                           pvc\<lparr>PersistentVolumeClaim.ObjectMeta := (PersistentVolumeClaim.ObjectMeta pvc)
                             \<lparr>Annotations := [''volume.beta.kubernetes.io/storage-class'' \<mapsto> Class vc]\<rparr>\<rparr>
                         else pvc)
                  in statefulset\<lparr>StatefulSet.Spec := (StatefulSet.Spec statefulset)
                       \<lparr>VolumeClaimTemplates :=
                          VolumeClaimTemplates (StatefulSet.Spec statefulset) @ [pvc]\<rparr>\<rparr>));
          statefulset =
            (case old of
               None \<Rightarrow> statefulset
             | Some previous \<Rightarrow>
                 statefulset\<lparr>StatefulSet.ObjectMeta := (StatefulSet.ObjectMeta statefulset)
                   \<lparr>Annotations := Annotations (StatefulSet.ObjectMeta previous)\<rparr>\<rparr>)
      in statefulset)"

section \<open>makeStatefulSetService\<close>

text \<open>The parameter is never dereferenced, so it may be nil: it is an option.\<close>

definition makeStatefulSetService :: "Alertmanager option \<Rightarrow> Service" where
  "makeStatefulSetService p =
     \<lparr>Service.ObjectMeta =
        \<lparr>ObjectMeta.Name = ''alertmanager'', Labels = Map.empty, Annotations = Map.empty\<rparr>,
      Service.Spec =
        \<lparr>ClusterIP = ''None'',
         ServiceSpec.Ports =
           [\<lparr>ServicePort.Name = ''web'', ServicePort.Port = 9093,
             ServicePort.TargetPort = FromInt 9093, ServicePort.Protocol = ProtocolTCP\<rparr>,
            \<lparr>ServicePort.Name = ''mesh'', ServicePort.Port = 6783,
             ServicePort.TargetPort = FromInt 6783, ServicePort.Protocol = ProtocolTCP\<rparr>],
         ServiceSpec.Selector = [''app'' \<mapsto> ''alertmanager'']\<rparr>\<rparr>"

section \<open>Example inputs\<close>

text \<open>
  A concrete visit of a map: the entries under the listed keys, in the order of the list.
  It is a visit of every map whose keys are among the (distinct) listed ones.
\<close>

definition visitKeys :: "'k list \<Rightarrow> ('k \<rightharpoonup> 'v) \<Rightarrow> ('k \<times> 'v) list" where
  "visitKeys ks m = concat (map (\<lambda>k. case m k of Some v \<Rightarrow> [(k, v)] | None \<Rightarrow> []) ks)"

text \<open>
  Endpoints with a named port, with a numeric target port only, with a string target
  port only, with an empty string target port, and with nothing set (the zero value of
  \<open>IntOrString\<close> is the numeric form of zero); and a monitor that selects \<open>team: x\<close> in
  its own namespace.
\<close>

definition webEndpoint :: Endpoint where
  "webEndpoint = \<lparr>Endpoint.Port = ''web'', Endpoint.TargetPort = FromInt 0, Path = [],
     Endpoint.Scheme = [], Interval = []\<rparr>"

definition numericEndpoint :: Endpoint where
  "numericEndpoint = \<lparr>Endpoint.Port = [], Endpoint.TargetPort = FromInt 8080, Path = [],
     Endpoint.Scheme = [], Interval = []\<rparr>"

definition teamMonitor :: "string \<Rightarrow> ServiceMonitor" where
  "teamMonitor name =
     \<lparr>ServiceMonitor.Name = name, ServiceMonitor.Namespace = ''default'',
      ServiceMonitor.Spec =
        \<lparr>JobLabel = [],
         ServiceMonitorSpec.Selector = \<lparr>MatchLabels = [''team'' \<mapsto> ''x''], MatchExpressions = []\<rparr>,
         Endpoints = [webEndpoint],
         NamespaceSelector = \<lparr>Any = False, MatchNames = []\<rparr>\<rparr>\<rparr>"

text \<open>
  A monitor with one exact-match label, one expression of each operator and one of an
  operator outside the four, and a namespace selector that sets both \<open>Any\<close> and two
  names.
\<close>

definition tierMonitor :: ServiceMonitor where
  "tierMonitor =
     \<lparr>ServiceMonitor.Name = ''m'', ServiceMonitor.Namespace = ''default'',
      ServiceMonitor.Spec =
        \<lparr>JobLabel = [],
         ServiceMonitorSpec.Selector =
           \<lparr>MatchLabels = [''team'' \<mapsto> ''x''],
            MatchExpressions =
              [\<lparr>Key = ''tier'', Operator = ''In'', Values = [''a'', ''b'']\<rparr>,
               \<lparr>Key = ''tier'', Operator = ''NotIn'', Values = [''a'', ''b'']\<rparr>,
               \<lparr>Key = ''env'', Operator = ''Exists'', Values = []\<rparr>,
               \<lparr>Key = ''legacy'', Operator = ''DoesNotExist'', Values = []\<rparr>,
               \<lparr>Key = ''size'', Operator = ''Gt'', Values = [''1'']\<rparr>]\<rparr>,
         Endpoints = [webEndpoint],
         NamespaceSelector = \<lparr>Any = True, MatchNames = [''ns1'', ''ns2'']\<rparr>\<rparr>\<rparr>"

definition namedStringEndpoint :: Endpoint where
  "namedStringEndpoint = \<lparr>Endpoint.Port = [], Endpoint.TargetPort = FromString ''metrics'', Path = [],
     Endpoint.Scheme = [], Interval = []\<rparr>"

definition emptyStringEndpoint :: Endpoint where
  "emptyStringEndpoint = \<lparr>Endpoint.Port = [], Endpoint.TargetPort = FromString [], Path = [],
     Endpoint.Scheme = [], Interval = []\<rparr>"

definition unsetEndpoint :: Endpoint where
  "unsetEndpoint = \<lparr>Endpoint.Port = [], Endpoint.TargetPort = FromInt 0, Path = [],
     Endpoint.Scheme = [], Interval = []\<rparr>"






text \<open>
  An Alertmanager object \<open>main\<close> in the namespace \<open>monitoring\<close> with a given replica
  count and no storage, and two previous manifests that carry the same annotations and
  differ in everything else.
\<close>

definition exampleAlertmanager :: "32 word \<Rightarrow> Alertmanager" where
  "exampleAlertmanager n =
     \<lparr>Alertmanager.Name = ''main'', Alertmanager.Namespace = ''monitoring'',
      Alertmanager.Spec = \<lparr>Version = [], BaseImage = [], AlertmanagerSpec.Replicas = n, Storage = None\<rparr>\<rparr>"

definition previousA :: StatefulSet where
  "previousA =
     \<lparr>StatefulSet.ObjectMeta =
        \<lparr>ObjectMeta.Name = ''main'', Labels = Map.empty, Annotations = [''owner'' \<mapsto> ''ops'']\<rparr>,
      StatefulSet.Spec = makeStatefulSetSpec ''monitoring'' ''main'' ''img:v1'' ''v1'' 1\<rparr>"

definition previousB :: StatefulSet where
  "previousB =
     \<lparr>StatefulSet.ObjectMeta =
        \<lparr>ObjectMeta.Name = ''other'', Labels = [''app'' \<mapsto> ''alertmanager''],
         Annotations = [''owner'' \<mapsto> ''ops'']\<rparr>,
      StatefulSet.Spec = makeStatefulSetSpec ''default'' ''other'' ''img:v2'' ''v2'' 5\<rparr>"

section \<open>The blocks of generateServiceMonitorConfig append to the slice\<close>

lemma matchLabelsLoop_append:
  "matchLabelsLoop kvs acc = acc @ matchLabelsLoop kvs []"
proof (induction kvs arbitrary: acc)
  case Nil
  show ?case by simp
next
  case (Cons kv kvs)
  obtain k v where kv: "kv = (k, v)" by (cases kv)
  show ?case
    unfolding kv matchLabelsLoop.simps
    by (subst Cons.IH, subst (2) Cons.IH) simp
qed

lemma matchExpressionsLoop_append:
  "matchExpressionsLoop exps acc = acc @ matchExpressionsLoop exps []"
proof (induction exps arbitrary: acc)
  case Nil
  show ?case by simp
next
  case (Cons e es)
  show ?case
    unfolding matchExpressionsLoop.simps
    by (subst Cons.IH, subst (2) Cons.IH) simp
qed

lemma namespaceFilter_append: "namespaceFilter m acc = acc @ namespaceFilter m []"
  by (simp add: namespaceFilter_def Let_def)

lemma portFilter_append: "portFilter ep acc = acc @ portFilter ep []"
  by (simp add: portFilter_def)

lemma properLabels_append: "properLabels acc = acc @ properLabels []"
  by (simp add: properLabels_def)

lemma defaultJobName_append: "defaultJobName ep acc = acc @ defaultJobName ep []"
  by (simp add: defaultJobName_def)

lemma jobLabelName_append: "jobLabelName m ep acc = acc @ jobLabelName m ep []"
  by (simp add: jobLabelName_def)

lemma relabel_configs_blocks:
  "relabel_configs (generateServiceMonitorConfig order m ep i) =
     matchLabelsLoop (order (MatchLabels (ServiceMonitorSpec.Selector (ServiceMonitor.Spec m)))) [] @
     matchExpressionsLoop (MatchExpressions (ServiceMonitorSpec.Selector (ServiceMonitor.Spec m))) [] @
     namespaceFilter m [] @ portFilter ep [] @ properLabels [] @
     defaultJobName ep [] @ jobLabelName m ep []"
proof -
  have "relabel_configs (generateServiceMonitorConfig order m ep i) =
     jobLabelName m ep (defaultJobName ep (properLabels (portFilter ep (namespaceFilter m
       (matchExpressionsLoop (MatchExpressions (ServiceMonitorSpec.Selector (ServiceMonitor.Spec m)))
         (matchLabelsLoop (order (MatchLabels (ServiceMonitorSpec.Selector (ServiceMonitor.Spec m)))) []))))))"
    by (simp add: generateServiceMonitorConfig_def relabel_configs_def field_def elements_def Let_def)
  also have "\<dots> = matchLabelsLoop (order (MatchLabels (ServiceMonitorSpec.Selector (ServiceMonitor.Spec m)))) [] @
     matchExpressionsLoop (MatchExpressions (ServiceMonitorSpec.Selector (ServiceMonitor.Spec m))) [] @
     namespaceFilter m [] @ portFilter ep [] @ properLabels [] @
     defaultJobName ep [] @ jobLabelName m ep []"
    apply (subst jobLabelName_append)
    apply (subst defaultJobName_append)
    apply (subst properLabels_append)
    apply (subst portFilter_append)
    apply (subst namespaceFilter_append)
    apply (subst matchExpressionsLoop_append)
    apply simp
    done
  finally show ?thesis .
qed


lemma matchLabelsLoop_Cons:
  "matchLabelsLoop ((k, v) # rest) [] =
     Dict [''action'' \<mapsto> Str ''keep'',
           ''source_labels'' \<mapsto> Seq [Str (''__meta_kubernetes_service_label_'' @ sanitizeLabelName k)],
           ''regex'' \<mapsto> Str v] # matchLabelsLoop rest []"
  by (simp, subst matchLabelsLoop_append, simp)

lemma matchExpressionsLoop_Cons:
  "matchExpressionsLoop (e # es) [] = matchExpressionsLoop [e] [] @ matchExpressionsLoop es []"
proof -
  have "matchExpressionsLoop (e # es) [] = matchExpressionsLoop es (matchExpressionsLoop [e] [])"
    by simp
  also have "\<dots> = matchExpressionsLoop [e] [] @ matchExpressionsLoop es []"
    by (rule matchExpressionsLoop_append)
  finally show ?thesis .
qed

lemma matchExpressionsLoop_concat:
  "matchExpressionsLoop exps [] = concat (map (\<lambda>e. matchExpressionsLoop [e] []) exps)"
proof (induction exps)
  case Nil
  show ?case by simp
next
  case (Cons e es)
  show ?case by (subst matchExpressionsLoop_Cons) (simp add: Cons.IH)
qed

lemma length_matchLabelsLoop: "length (matchLabelsLoop kvs []) = length kvs"
proof (induction kvs)
  case Nil
  show ?case by simp
next
  case (Cons kv kvs)
  obtain k v where kv: "kv = (k, v)" by (cases kv)
  show ?case unfolding kv by (subst matchLabelsLoop_Cons) (simp add: Cons.IH)
qed

lemma filter_matchLabelsLoop:
  "filter jobRewriteRule (matchLabelsLoop kvs []) = []"
  "filter namespaceFilterRule (matchLabelsLoop kvs []) = []"
  "filter portFilterRule (matchLabelsLoop kvs []) = []"
proof (induction kvs)
  case Nil
  { case 1 show ?case by simp }
  { case 2 show ?case by simp }
  { case 3 show ?case by simp }
next
  case (Cons kv kvs)
  obtain k v where kv: "kv = (k, v)" by (cases kv)
  { case 1 show ?case unfolding kv
      by (subst matchLabelsLoop_Cons) (simp add: Cons.IH jobRewriteRule_def field_def) }
  { case 2 show ?case unfolding kv
      by (subst matchLabelsLoop_Cons) (simp add: Cons.IH namespaceFilterRule_def field_def) }
  { case 3 show ?case unfolding kv
      by (subst matchLabelsLoop_Cons) (simp add: Cons.IH portFilterRule_def field_def) }
qed

lemmas operator_defs =
  LabelSelectorOpIn_def LabelSelectorOpNotIn_def LabelSelectorOpExists_def
  LabelSelectorOpDoesNotExist_def

lemma filter_matchExpressionsLoop:
  "filter jobRewriteRule (matchExpressionsLoop exps []) = []"
  "filter namespaceFilterRule (matchExpressionsLoop exps []) = []"
  "filter portFilterRule (matchExpressionsLoop exps []) = []"
proof (induction exps)
  case Nil
  { case 1 show ?case by simp }
  { case 2 show ?case by simp }
  { case 3 show ?case by simp }
next
  case (Cons e es)
  { case 1 show ?case
      by (subst matchExpressionsLoop_Cons) (simp add: Cons.IH jobRewriteRule_def field_def) }
  { case 2 show ?case
      by (subst matchExpressionsLoop_Cons) (simp add: Cons.IH namespaceFilterRule_def field_def) }
  { case 3 show ?case
      by (subst matchExpressionsLoop_Cons) (simp add: Cons.IH portFilterRule_def field_def) }
qed


section \<open>Visits of a map with at most one entry\<close>

lemma rangesOver_set:
  assumes "rangesOver m kvs"
  shows "((k, v) \<in> set kvs) = (m k = Some v)"
  using assms map_of_eq_Some_iff [of kvs k v] by (auto simp: rangesOver_def)

lemma short_list:
  assumes "distinct xs" and "\<And>x y. x \<in> set xs \<Longrightarrow> y \<in> set xs \<Longrightarrow> x = y"
  shows "xs = [] \<or> (\<exists>x. xs = [x])"
proof (cases xs)
  case Nil
  then show ?thesis by simp
next
  case (Cons a rest)
  show ?thesis
  proof (cases rest)
    case Nil
    with Cons show ?thesis by simp
  next
    case (Cons b rest')
    with \<open>xs = a # rest\<close> assms(2) [of a b] assms(1) show ?thesis by auto
  qed
qed

lemma rangesOver_unique:
  assumes one: "atMostOneEntry m" and xs: "rangesOver m xs" and ys: "rangesOver m ys"
  shows "xs = ys"
proof -
  have same: "set xs = set ys"
    using rangesOver_set [OF xs] rangesOver_set [OF ys] by auto
  have eq: "x = y" if "x \<in> set zs" "y \<in> set zs" "rangesOver m zs" for x y zs
  proof -
    obtain a b where x: "x = (a, b)" by (cases x)
    obtain c d where y: "y = (c, d)" by (cases y)
    have "m a = Some b" "m c = Some d"
      using that rangesOver_set [OF that(3)] x y by auto
    moreover from this have "a = c"
      using one by (auto simp: atMostOneEntry_def)
    ultimately show ?thesis using x y by simp
  qed
  have dx: "distinct xs" and dy: "distinct ys"
    using xs ys by (auto simp: rangesOver_def distinct_map)
  have sx: "xs = [] \<or> (\<exists>x. xs = [x])"
    by (rule short_list [OF dx]) (rule eq [OF _ _ xs])
  have sy: "ys = [] \<or> (\<exists>y. ys = [y])"
    by (rule short_list [OF dy]) (rule eq [OF _ _ ys])
  from sx sy same show ?thesis by auto
qed

lemma rangesOver_single:
  assumes "rangesOver [k \<mapsto> v] kvs"
  shows "kvs = [(k, v)]"
proof (rule rangesOver_unique [OF _ assms])
  show "atMostOneEntry [k \<mapsto> v]"
    by (simp add: atMostOneEntry_def)
  show "rangesOver [k \<mapsto> v] [(k, v)]"
    by (simp add: rangesOver_def)
qed


section \<open>Job and port rules among the blocks\<close>

lemma decimal_not_Nil: "decimal n \<noteq> []"
  by (subst decimal.simps) simp

lemma Itoa_not_Nil: "Itoa i \<noteq> []"
  by (simp add: Itoa_def decimal_not_Nil)

lemma filter_job_fixed_blocks:
  "filter jobRewriteRule (namespaceFilter m []) = []"
  "filter jobRewriteRule (portFilter ep []) = []"
  "filter jobRewriteRule (properLabels []) = []"
  by (simp_all add: namespaceFilter_def portFilter_def properLabels_def jobRewriteRule_def
      field_def Let_def)

lemma filter_port_other_blocks:
  "filter portFilterRule (namespaceFilter m []) = []"
  "filter portFilterRule (properLabels []) = []"
  "filter portFilterRule (defaultJobName ep []) = []"
  "filter portFilterRule (jobLabelName m ep []) = []"
  by (simp_all add: namespaceFilter_def properLabels_def defaultJobName_def jobLabelName_def
      portFilterRule_def field_def Let_def)

lemma job_rules_of_port:
  assumes "(if Endpoint.Port ep \<noteq> [] then Endpoint.Port ep
            else IntOrString_String (Endpoint.TargetPort ep)) = p"
  shows "filter jobRewriteRule (relabel_configs (generateServiceMonitorConfig order m ep i)) =
     (if p = [] then []
      else
        Dict [''source_labels'' \<mapsto> Seq [Str ''__meta_kubernetes_service_name''],
              ''target_label'' \<mapsto> Str ''job'',
              ''replacement'' \<mapsto> Str (''${1}-'' @ p)] #
        (if JobLabel (ServiceMonitor.Spec m) = [] then []
         else
           [Dict [''source_labels'' \<mapsto> Seq [Str (''__meta_kubernetes_service_label_'' @ sanitizeLabelName (JobLabel (ServiceMonitor.Spec m)))],
                  ''target_label'' \<mapsto> Str ''job'',
                  ''regex'' \<mapsto> Str ''(.+)'',
                  ''replacement'' \<mapsto> Str (''${1}-'' @ p)]]))"
proof -
  have "filter jobRewriteRule (defaultJobName ep [] @ jobLabelName m ep []) =
     (if p = [] then []
      else
        Dict [''source_labels'' \<mapsto> Seq [Str ''__meta_kubernetes_service_name''],
              ''target_label'' \<mapsto> Str ''job'',
              ''replacement'' \<mapsto> Str (''${1}-'' @ p)] #
        (if JobLabel (ServiceMonitor.Spec m) = [] then []
         else
           [Dict [''source_labels'' \<mapsto> Seq [Str (''__meta_kubernetes_service_label_'' @ sanitizeLabelName (JobLabel (ServiceMonitor.Spec m)))],
                  ''target_label'' \<mapsto> Str ''job'',
                  ''regex'' \<mapsto> Str ''(.+)'',
                  ''replacement'' \<mapsto> Str (''${1}-'' @ p)]]))"
    using assms by (auto simp: defaultJobName_def jobLabelName_def jobRewriteRule_def field_def)
  then show ?thesis
    by (simp only: relabel_configs_blocks filter_append filter_matchLabelsLoop
        filter_matchExpressionsLoop filter_job_fixed_blocks append_Nil)
qed

lemmas example_defs = visitKeys_def webEndpoint_def numericEndpoint_def teamMonitor_def FromInt_def FromString_def

lemmas eval_defs = generateServiceMonitorConfig_def relabel_configs_def field_def elements_def
  namespaceFilter_def portFilter_def properLabels_def defaultJobName_def jobLabelName_def
  Let_def validLabelChar_def IntOrString_String_def Itoa_def decimal.simps digit_def

section \<open>strings.Join in closed form, and the example monitor evaluated\<close>

lemma Join_closed:
  "Join elems sep = (case elems of [] \<Rightarrow> [] | a # rest \<Rightarrow> a @ concat (map (\<lambda>b. sep @ b) rest))"
proof (induction elems sep rule: Join.induct)
  case (1 sep)
  show ?case by simp
next
  case (2 a sep)
  show ?case by simp
next
  case (3 a b rest sep)
  then show ?case by simp
qed

lemma tier_without_expressions:
  "relabel_configs (generateServiceMonitorConfig (visitKeys [''team''])
      (tierMonitor\<lparr>ServiceMonitor.Spec := (ServiceMonitor.Spec tierMonitor)
         \<lparr>ServiceMonitorSpec.Selector := (ServiceMonitorSpec.Selector (ServiceMonitor.Spec tierMonitor))
            \<lparr>MatchExpressions := []\<rparr>\<rparr>\<rparr>) webEndpoint 0) =
     [Dict [''action'' \<mapsto> Str ''keep'',
            ''source_labels'' \<mapsto> Seq [Str ''__meta_kubernetes_service_label_team''],
            ''regex'' \<mapsto> Str ''x''],
      Dict [''action'' \<mapsto> Str ''keep'',
            ''source_labels'' \<mapsto> Seq [Str ''__meta_kubernetes_namespace''],
            ''regex'' \<mapsto> Str ''ns1|ns2''],
      Dict [''action'' \<mapsto> Str ''keep'',
            ''source_labels'' \<mapsto> Seq [Str ''__meta_kubernetes_endpoint_port_name''],
            ''regex'' \<mapsto> Str ''web''],
      Dict [''source_labels'' \<mapsto> Seq [Str ''__meta_kubernetes_namespace''],
            ''target_label'' \<mapsto> Str ''namespace''],
      Dict [''action'' \<mapsto> Str ''labelmap'',
            ''regex'' \<mapsto> Str ''__meta_kubernetes_service_label_(.+)'',
            ''replacement'' \<mapsto> Str ''svc_$1''],
      Dict [''action'' \<mapsto> Str ''replace'',
            ''target_label'' \<mapsto> Str ''__meta_kubernetes_pod_label_pod_template_hash'',
            ''replacement'' \<mapsto> Str []],
      Dict [''action'' \<mapsto> Str ''labelmap'',
            ''regex'' \<mapsto> Str ''__meta_kubernetes_pod_label_(.+)'',
            ''replacement'' \<mapsto> Str ''pod_$1''],
      Dict [''source_labels'' \<mapsto> Seq [Str ''__meta_kubernetes_service_name''],
            ''target_label'' \<mapsto> Str ''job'',
            ''replacement'' \<mapsto> Str ''${1}-web'']]"
  by (simp add: tierMonitor_def example_defs eval_defs)

lemma tier_fields:
  "MatchLabels (ServiceMonitorSpec.Selector (ServiceMonitor.Spec tierMonitor)) = [''team'' \<mapsto> ''x'']"
  "MatchExpressions (ServiceMonitorSpec.Selector (ServiceMonitor.Spec tierMonitor)) =
     [\<lparr>Key = ''tier'', Operator = ''In'', Values = [''a'', ''b'']\<rparr>,
      \<lparr>Key = ''tier'', Operator = ''NotIn'', Values = [''a'', ''b'']\<rparr>,
      \<lparr>Key = ''env'', Operator = ''Exists'', Values = []\<rparr>,
      \<lparr>Key = ''legacy'', Operator = ''DoesNotExist'', Values = []\<rparr>,
      \<lparr>Key = ''size'', Operator = ''Gt'', Values = [''1'']\<rparr>]"
  "NamespaceSelector (ServiceMonitor.Spec tierMonitor) = \<lparr>Any = True, MatchNames = [''ns1'', ''ns2'']\<rparr>"
  "ServiceMonitor.Namespace tierMonitor = ''default''"
  by (simp_all add: tierMonitor_def)

lemma tier_visit: "visitKeys [''team''] [''team'' \<mapsto> ''x''] = [(''team'', ''x'')]"
  by (simp add: visitKeys_def)

section \<open>The output depends on the orders only where a loop uses them\<close>









section \<open>Properties of the generated configuration\<close>

text \<open>
  Claim C1, as stated, fails: it says that an endpoint whose target port is numeric only
  gets no job-rewrite rule. The source tests \<open>ep.TargetPort.String() != ""\<close>, and the
  string form of the number 8080 is \<open>8080\<close>: the rule is emitted, with the replacement
  \<open>${1}-8080\<close>.
\<close>

theorem numeric_port_counterexample:
  "filter jobRewriteRule (relabel_configs
       (generateServiceMonitorConfig (visitKeys [''team'']) (teamMonitor ''m'') numericEndpoint 0)) =
     [Dict [''source_labels'' \<mapsto> Seq [Str ''__meta_kubernetes_service_name''],
            ''target_label'' \<mapsto> Str ''job'',
            ''replacement'' \<mapsto> Str ''${1}-8080'']]"
  by (simp add: jobRewriteRule_def example_defs eval_defs)

text \<open>
  Claim C1, amended. The job-rewrite rules of the output (the rules whose target label
  is \<open>job\<close>) are the rule from the service name with the replacement \<open>${1}-<port>\<close>,
  followed by the rule from the job label when the monitor declares one, whenever the
  endpoint has a named port, or else a non-empty string target port, or else a nonzero
  numeric target port; \<open><port>\<close> is the named port, the string, or the number in
  decimal. An endpoint without a named port whose target port is the empty string gets
  no job-rewrite rule, and an endpoint with neither a named port nor any form of target
  port gets no port filter.
\<close>

theorem job_rewrite_rules:
  "((Endpoint.Port ep = p \<and> p \<noteq> []) \<or>
    (Endpoint.Port ep = [] \<and> Endpoint.TargetPort ep = FromString p \<and> p \<noteq> []) \<or>
    (\<exists>n. Endpoint.Port ep = [] \<and> Endpoint.TargetPort ep = FromInt n \<and> n \<noteq> 0 \<and> p = Itoa (sint n))
    \<longrightarrow>
      filter jobRewriteRule (relabel_configs (generateServiceMonitorConfig order m ep i)) =
        Dict [''source_labels'' \<mapsto> Seq [Str ''__meta_kubernetes_service_name''],
              ''target_label'' \<mapsto> Str ''job'',
              ''replacement'' \<mapsto> Str (''${1}-'' @ p)] #
        (if JobLabel (ServiceMonitor.Spec m) = [] then []
         else
           [Dict [''source_labels'' \<mapsto> Seq [Str (''__meta_kubernetes_service_label_'' @ sanitizeLabelName (JobLabel (ServiceMonitor.Spec m)))],
                  ''target_label'' \<mapsto> Str ''job'',
                  ''regex'' \<mapsto> Str ''(.+)'',
                  ''replacement'' \<mapsto> Str (''${1}-'' @ p)]]))
   \<and> (Endpoint.Port ep = [] \<and> Endpoint.TargetPort ep = FromString []
    \<longrightarrow> filter jobRewriteRule (relabel_configs (generateServiceMonitorConfig order m ep i)) = [])
   \<and> (Endpoint.Port ep = [] \<and> StrVal (Endpoint.TargetPort ep) = [] \<and> IntVal (Endpoint.TargetPort ep) = 0
    \<longrightarrow> filter portFilterRule (relabel_configs (generateServiceMonitorConfig order m ep i)) = [])"
proof (intro conjI impI)
  assume "(Endpoint.Port ep = p \<and> p \<noteq> []) \<or>
    (Endpoint.Port ep = [] \<and> Endpoint.TargetPort ep = FromString p \<and> p \<noteq> []) \<or>
    (\<exists>n. Endpoint.Port ep = [] \<and> Endpoint.TargetPort ep = FromInt n \<and> n \<noteq> 0 \<and> p = Itoa (sint n))"
  then have "(if Endpoint.Port ep \<noteq> [] then Endpoint.Port ep
            else IntOrString_String (Endpoint.TargetPort ep)) = p" and "p \<noteq> []"
    by (auto simp: IntOrString_String_def FromString_def FromInt_def Itoa_not_Nil Itoa_not_Nil [THEN not_sym])
  then show "filter jobRewriteRule (relabel_configs (generateServiceMonitorConfig order m ep i)) =
        Dict [''source_labels'' \<mapsto> Seq [Str ''__meta_kubernetes_service_name''],
              ''target_label'' \<mapsto> Str ''job'',
              ''replacement'' \<mapsto> Str (''${1}-'' @ p)] #
        (if JobLabel (ServiceMonitor.Spec m) = [] then []
         else
           [Dict [''source_labels'' \<mapsto> Seq [Str (''__meta_kubernetes_service_label_'' @ sanitizeLabelName (JobLabel (ServiceMonitor.Spec m)))],
                  ''target_label'' \<mapsto> Str ''job'',
                  ''regex'' \<mapsto> Str ''(.+)'',
                  ''replacement'' \<mapsto> Str (''${1}-'' @ p)]])"
    by (simp add: job_rules_of_port)
next
  assume "Endpoint.Port ep = [] \<and> Endpoint.TargetPort ep = FromString []"
  then have "(if Endpoint.Port ep \<noteq> [] then Endpoint.Port ep
            else IntOrString_String (Endpoint.TargetPort ep)) = []"
    by (simp add: IntOrString_String_def FromString_def)
  then show "filter jobRewriteRule (relabel_configs (generateServiceMonitorConfig order m ep i)) = []"
    by (simp add: job_rules_of_port)
next
  assume "Endpoint.Port ep = [] \<and> StrVal (Endpoint.TargetPort ep) = [] \<and> IntVal (Endpoint.TargetPort ep) = 0"
  then have "portFilter ep [] = []"
    by (simp add: portFilter_def)
  then show "filter portFilterRule (relabel_configs (generateServiceMonitorConfig order m ep i)) = []"
    by (simp only: relabel_configs_blocks filter_append filter_matchLabelsLoop
        filter_matchExpressionsLoop filter_port_other_blocks append_Nil filter.simps)
qed

text \<open>
  The amended claim C1 at concrete endpoints: a named port, a string target port, the
  numeric target port 8080, an empty string target port, and nothing set.
\<close>

theorem job_rewrite_rules_witness:
  "filter jobRewriteRule (relabel_configs
       (generateServiceMonitorConfig (visitKeys [''team'']) (teamMonitor ''m'') webEndpoint 0)) =
     [Dict [''source_labels'' \<mapsto> Seq [Str ''__meta_kubernetes_service_name''],
            ''target_label'' \<mapsto> Str ''job'',
            ''replacement'' \<mapsto> Str ''${1}-web'']]
   \<and> filter jobRewriteRule (relabel_configs
       (generateServiceMonitorConfig (visitKeys [''team'']) (teamMonitor ''m'') namedStringEndpoint 0)) =
     [Dict [''source_labels'' \<mapsto> Seq [Str ''__meta_kubernetes_service_name''],
            ''target_label'' \<mapsto> Str ''job'',
            ''replacement'' \<mapsto> Str ''${1}-metrics'']]
   \<and> filter jobRewriteRule (relabel_configs
       (generateServiceMonitorConfig (visitKeys [''team'']) (teamMonitor ''m'') numericEndpoint 0)) =
     [Dict [''source_labels'' \<mapsto> Seq [Str ''__meta_kubernetes_service_name''],
            ''target_label'' \<mapsto> Str ''job'',
            ''replacement'' \<mapsto> Str ''${1}-8080'']]
   \<and> filter jobRewriteRule (relabel_configs
       (generateServiceMonitorConfig (visitKeys [''team'']) (teamMonitor ''m'') emptyStringEndpoint 0)) = []
   \<and> filter portFilterRule (relabel_configs
       (generateServiceMonitorConfig (visitKeys [''team'']) (teamMonitor ''m'') unsetEndpoint 0)) = []"
proof -
  have jl: "JobLabel (ServiceMonitor.Spec (teamMonitor ''m'')) = []"
    by (simp add: teamMonitor_def)
  have n: "(8080 :: 32 word) \<noteq> 0" "Itoa (sint (8080 :: 32 word)) = ''8080''"
    by (simp_all add: Itoa_def decimal.simps digit_def)
  have a: "filter jobRewriteRule (relabel_configs
       (generateServiceMonitorConfig (visitKeys [''team'']) (teamMonitor ''m'') webEndpoint 0)) =
     [Dict [''source_labels'' \<mapsto> Seq [Str ''__meta_kubernetes_service_name''],
            ''target_label'' \<mapsto> Str ''job'',
            ''replacement'' \<mapsto> Str ''${1}-web'']]"
    using job_rewrite_rules [where ep = webEndpoint and p = "''web''" and m = "teamMonitor ''m''"
        and order = "visitKeys [''team'']" and i = 0]
    by (simp add: jl webEndpoint_def)
  have b: "filter jobRewriteRule (relabel_configs
       (generateServiceMonitorConfig (visitKeys [''team'']) (teamMonitor ''m'') namedStringEndpoint 0)) =
     [Dict [''source_labels'' \<mapsto> Seq [Str ''__meta_kubernetes_service_name''],
            ''target_label'' \<mapsto> Str ''job'',
            ''replacement'' \<mapsto> Str ''${1}-metrics'']]"
    using job_rewrite_rules [where ep = namedStringEndpoint and p = "''metrics''" and m = "teamMonitor ''m''"
        and order = "visitKeys [''team'']" and i = 0]
    by (simp add: jl namedStringEndpoint_def)
  have c: "filter jobRewriteRule (relabel_configs
       (generateServiceMonitorConfig (visitKeys [''team'']) (teamMonitor ''m'') numericEndpoint 0)) =
     [Dict [''source_labels'' \<mapsto> Seq [Str ''__meta_kubernetes_service_name''],
            ''target_label'' \<mapsto> Str ''job'',
            ''replacement'' \<mapsto> Str ''${1}-8080'']]"
    using job_rewrite_rules [where ep = numericEndpoint and p = "''8080''" and m = "teamMonitor ''m''"
        and order = "visitKeys [''team'']" and i = 0] n
    by (simp add: jl numericEndpoint_def FromInt_def FromString_def)
  have d: "filter jobRewriteRule (relabel_configs
       (generateServiceMonitorConfig (visitKeys [''team'']) (teamMonitor ''m'') emptyStringEndpoint 0)) = []"
    using job_rewrite_rules [where ep = emptyStringEndpoint and m = "teamMonitor ''m''"
        and order = "visitKeys [''team'']" and i = 0]
    by (simp add: emptyStringEndpoint_def)
  have e: "filter portFilterRule (relabel_configs
       (generateServiceMonitorConfig (visitKeys [''team'']) (teamMonitor ''m'') unsetEndpoint 0)) = []"
    using job_rewrite_rules [where ep = unsetEndpoint and m = "teamMonitor ''m''"
        and order = "visitKeys [''team'']" and i = 0]
    by (simp add: unsetEndpoint_def FromInt_def)
  from a b c d e show ?thesis by (intro conjI)
qed

text \<open>
  Claim C2, as stated, fails on its count: the rules it lists are eight, not seven (one
  for the label, one for the namespace, one for the port, four fixed ones, one for the
  job).
\<close>

theorem team_web_counterexample:
  "rangesOver (MatchLabels (ServiceMonitorSpec.Selector (ServiceMonitor.Spec (teamMonitor ''m''))))
     (visitKeys [''team''] (MatchLabels (ServiceMonitorSpec.Selector (ServiceMonitor.Spec (teamMonitor ''m'')))))
   \<and> length (relabel_configs
       (generateServiceMonitorConfig (visitKeys [''team'']) (teamMonitor ''m'') webEndpoint 0)) = 8"
  by (simp add: rangesOver_def example_defs eval_defs)

text \<open>
  Claim C2, amended. For a monitor whose exact-match selector is \<open>team: x\<close>, without
  expressions, scoped to its own namespace, and an endpoint whose named port is \<open>web\<close>,
  the relabel rules are exactly these eight, in this order: keep on the service label
  \<open>team\<close> with the regex \<open>x\<close>, keep on the namespace with the regex of the monitor's
  namespace, keep on the endpoint port name with the regex \<open>web\<close>, the four fixed rules,
  and the job rule with the replacement \<open>${1}-web\<close>; a monitor that declares a job
  label gets the rule from that label as a ninth.
\<close>

theorem team_web_relabelings:
  assumes labels: "MatchLabels (ServiceMonitorSpec.Selector (ServiceMonitor.Spec m)) = [''team'' \<mapsto> ''x'']"
    and exprs: "MatchExpressions (ServiceMonitorSpec.Selector (ServiceMonitor.Spec m)) = []"
    and nsel: "NamespaceSelector (ServiceMonitor.Spec m) = \<lparr>Any = False, MatchNames = []\<rparr>"
    and port: "Endpoint.Port ep = ''web''"
    and visit: "rangesOver (MatchLabels (ServiceMonitorSpec.Selector (ServiceMonitor.Spec m)))
        (order (MatchLabels (ServiceMonitorSpec.Selector (ServiceMonitor.Spec m))))"
  shows "relabel_configs (generateServiceMonitorConfig order m ep i) =
     [Dict [''action'' \<mapsto> Str ''keep'',
            ''source_labels'' \<mapsto> Seq [Str ''__meta_kubernetes_service_label_team''],
            ''regex'' \<mapsto> Str ''x''],
      Dict [''action'' \<mapsto> Str ''keep'',
            ''source_labels'' \<mapsto> Seq [Str ''__meta_kubernetes_namespace''],
            ''regex'' \<mapsto> Str (ServiceMonitor.Namespace m)],
      Dict [''action'' \<mapsto> Str ''keep'',
            ''source_labels'' \<mapsto> Seq [Str ''__meta_kubernetes_endpoint_port_name''],
            ''regex'' \<mapsto> Str ''web''],
      Dict [''source_labels'' \<mapsto> Seq [Str ''__meta_kubernetes_namespace''],
            ''target_label'' \<mapsto> Str ''namespace''],
      Dict [''action'' \<mapsto> Str ''labelmap'',
            ''regex'' \<mapsto> Str ''__meta_kubernetes_service_label_(.+)'',
            ''replacement'' \<mapsto> Str ''svc_$1''],
      Dict [''action'' \<mapsto> Str ''replace'',
            ''target_label'' \<mapsto> Str ''__meta_kubernetes_pod_label_pod_template_hash'',
            ''replacement'' \<mapsto> Str []],
      Dict [''action'' \<mapsto> Str ''labelmap'',
            ''regex'' \<mapsto> Str ''__meta_kubernetes_pod_label_(.+)'',
            ''replacement'' \<mapsto> Str ''pod_$1''],
      Dict [''source_labels'' \<mapsto> Seq [Str ''__meta_kubernetes_service_name''],
            ''target_label'' \<mapsto> Str ''job'',
            ''replacement'' \<mapsto> Str ''${1}-web'']] @
     (if JobLabel (ServiceMonitor.Spec m) = [] then []
      else
        [Dict [''source_labels'' \<mapsto> Seq [Str (''__meta_kubernetes_service_label_'' @ sanitizeLabelName (JobLabel (ServiceMonitor.Spec m)))],
               ''target_label'' \<mapsto> Str ''job'',
               ''regex'' \<mapsto> Str ''(.+)'',
               ''replacement'' \<mapsto> Str ''${1}-web'']])"
proof -
  have visit': "order (MatchLabels (ServiceMonitorSpec.Selector (ServiceMonitor.Spec m))) = [(''team'', ''x'')]"
    using visit unfolding labels by (rule rangesOver_single)
  show ?thesis
    by (simp add: relabel_configs_blocks visit' exprs nsel port namespaceFilter_def portFilter_def
        properLabels_def defaultJobName_def jobLabelName_def validLabelChar_def)
qed

text \<open>The amended claim C2 at the example monitor and its endpoint \<open>web\<close>.\<close>

theorem team_web_relabelings_witness:
  "relabel_configs (generateServiceMonitorConfig (visitKeys [''team'']) (teamMonitor ''m'') webEndpoint 7) =
     [Dict [''action'' \<mapsto> Str ''keep'',
            ''source_labels'' \<mapsto> Seq [Str ''__meta_kubernetes_service_label_team''],
            ''regex'' \<mapsto> Str ''x''],
      Dict [''action'' \<mapsto> Str ''keep'',
            ''source_labels'' \<mapsto> Seq [Str ''__meta_kubernetes_namespace''],
            ''regex'' \<mapsto> Str ''default''],
      Dict [''action'' \<mapsto> Str ''keep'',
            ''source_labels'' \<mapsto> Seq [Str ''__meta_kubernetes_endpoint_port_name''],
            ''regex'' \<mapsto> Str ''web''],
      Dict [''source_labels'' \<mapsto> Seq [Str ''__meta_kubernetes_namespace''],
            ''target_label'' \<mapsto> Str ''namespace''],
      Dict [''action'' \<mapsto> Str ''labelmap'',
            ''regex'' \<mapsto> Str ''__meta_kubernetes_service_label_(.+)'',
            ''replacement'' \<mapsto> Str ''svc_$1''],
      Dict [''action'' \<mapsto> Str ''replace'',
            ''target_label'' \<mapsto> Str ''__meta_kubernetes_pod_label_pod_template_hash'',
            ''replacement'' \<mapsto> Str []],
      Dict [''action'' \<mapsto> Str ''labelmap'',
            ''regex'' \<mapsto> Str ''__meta_kubernetes_pod_label_(.+)'',
            ''replacement'' \<mapsto> Str ''pod_$1''],
      Dict [''source_labels'' \<mapsto> Seq [Str ''__meta_kubernetes_service_name''],
            ''target_label'' \<mapsto> Str ''job'',
            ''replacement'' \<mapsto> Str ''${1}-web'']]"
proof -
  have a: "MatchLabels (ServiceMonitorSpec.Selector (ServiceMonitor.Spec (teamMonitor ''m''))) = [''team'' \<mapsto> ''x'']"
    by (simp add: teamMonitor_def)
  have b: "MatchExpressions (ServiceMonitorSpec.Selector (ServiceMonitor.Spec (teamMonitor ''m''))) = []"
    by (simp add: teamMonitor_def)
  have c: "NamespaceSelector (ServiceMonitor.Spec (teamMonitor ''m'')) = \<lparr>Any = False, MatchNames = []\<rparr>"
    by (simp add: teamMonitor_def)
  have d: "Endpoint.Port webEndpoint = ''web''"
    by (simp add: webEndpoint_def)
  have e: "rangesOver (MatchLabels (ServiceMonitorSpec.Selector (ServiceMonitor.Spec (teamMonitor ''m''))))
        (visitKeys [''team''] (MatchLabels (ServiceMonitorSpec.Selector (ServiceMonitor.Spec (teamMonitor ''m'')))))"
    by (simp add: teamMonitor_def visitKeys_def rangesOver_def)
  have f: "JobLabel (ServiceMonitor.Spec (teamMonitor ''m'')) = []" "ServiceMonitor.Namespace (teamMonitor ''m'') = ''default''"
    by (simp_all add: teamMonitor_def)
  show ?thesis
    using team_web_relabelings [where m = "teamMonitor ''m''" and ep = webEndpoint
        and order = "visitKeys [''team'']" and i = 7, OF a b c d e]
    by (simp add: f)
qed





text \<open>
  Claim C4. For every set-based selector expression the operator decides the rule:
  \<open>In\<close> gives a keep rule whose regex is the values joined with \<open>|\<close>, \<open>NotIn\<close> a
  drop rule with the same regex, \<open>Exists\<close> a keep rule with the regex \<open>.+\<close>,
  \<open>DoesNotExist\<close> a drop rule with the regex \<open>.+\<close>, and any other operator no rule.
  Stated on the whole output: the rules of a monitor are the rules of the same monitor
  without its expressions, with exactly these rules, in the order of the expressions,
  inserted after the exact-match rules.
\<close>

theorem matchExpressions_operator_rules:
  "relabel_configs (generateServiceMonitorConfig order m ep i) =
     take (length (order (MatchLabels (ServiceMonitorSpec.Selector (ServiceMonitor.Spec m)))))
       (relabel_configs (generateServiceMonitorConfig order
          (m\<lparr>ServiceMonitor.Spec := (ServiceMonitor.Spec m)
              \<lparr>ServiceMonitorSpec.Selector := (ServiceMonitorSpec.Selector (ServiceMonitor.Spec m))\<lparr>MatchExpressions := []\<rparr>\<rparr>\<rparr>) ep i)) @
     concat (map (\<lambda>exp.
        if Operator exp = ''In'' then
          [Dict [''action'' \<mapsto> Str ''keep'',
                 ''source_labels'' \<mapsto> Seq [Str (''__meta_kubernetes_service_label_'' @ sanitizeLabelName (Key exp))],
                 ''regex'' \<mapsto> Str (Join (Values exp) ''|'')]]
        else if Operator exp = ''NotIn'' then
          [Dict [''action'' \<mapsto> Str ''drop'',
                 ''source_labels'' \<mapsto> Seq [Str (''__meta_kubernetes_service_label_'' @ sanitizeLabelName (Key exp))],
                 ''regex'' \<mapsto> Str (Join (Values exp) ''|'')]]
        else if Operator exp = ''Exists'' then
          [Dict [''action'' \<mapsto> Str ''keep'',
                 ''source_labels'' \<mapsto> Seq [Str (''__meta_kubernetes_service_label_'' @ sanitizeLabelName (Key exp))],
                 ''regex'' \<mapsto> Str ''.+'']]
        else if Operator exp = ''DoesNotExist'' then
          [Dict [''action'' \<mapsto> Str ''drop'',
                 ''source_labels'' \<mapsto> Seq [Str (''__meta_kubernetes_service_label_'' @ sanitizeLabelName (Key exp))],
                 ''regex'' \<mapsto> Str ''.+'']]
        else [])
       (MatchExpressions (ServiceMonitorSpec.Selector (ServiceMonitor.Spec m)))) @
     drop (length (order (MatchLabels (ServiceMonitorSpec.Selector (ServiceMonitor.Spec m)))))
       (relabel_configs (generateServiceMonitorConfig order
          (m\<lparr>ServiceMonitor.Spec := (ServiceMonitor.Spec m)
              \<lparr>ServiceMonitorSpec.Selector := (ServiceMonitorSpec.Selector (ServiceMonitor.Spec m))\<lparr>MatchExpressions := []\<rparr>\<rparr>\<rparr>) ep i))
   \<and> Join (Values exp) ''|'' =
     (case Values exp of [] \<Rightarrow> [] | v # rest \<Rightarrow> v @ concat (map (\<lambda>w. ''|'' @ w) rest))"
proof -
  let ?m0 = "m\<lparr>ServiceMonitor.Spec := (ServiceMonitor.Spec m)
              \<lparr>ServiceMonitorSpec.Selector := (ServiceMonitorSpec.Selector (ServiceMonitor.Spec m))\<lparr>MatchExpressions := []\<rparr>\<rparr>\<rparr>"
  let ?labels = "matchLabelsLoop (order (MatchLabels (ServiceMonitorSpec.Selector (ServiceMonitor.Spec m)))) []"
  let ?rest = "namespaceFilter m [] @ portFilter ep [] @ properLabels [] @
     defaultJobName ep [] @ jobLabelName m ep []"
  have ns: "namespaceFilter ?m0 [] = namespaceFilter m []"
    by (simp add: namespaceFilter_def Let_def)
  have jl: "jobLabelName ?m0 ep [] = jobLabelName m ep []"
    by (simp add: jobLabelName_def)
  have r0: "relabel_configs (generateServiceMonitorConfig order ?m0 ep i) = ?labels @ ?rest"
    by (simp only: relabel_configs_blocks ns jl) simp
  have len: "length ?labels = length (order (MatchLabels (ServiceMonitorSpec.Selector (ServiceMonitor.Spec m))))"
    by (rule length_matchLabelsLoop)
  have tk: "take (length (order (MatchLabels (ServiceMonitorSpec.Selector (ServiceMonitor.Spec m)))))
      (relabel_configs (generateServiceMonitorConfig order ?m0 ep i)) = ?labels"
    by (simp only: r0 len [symmetric]) simp
  have dr: "drop (length (order (MatchLabels (ServiceMonitorSpec.Selector (ServiceMonitor.Spec m)))))
      (relabel_configs (generateServiceMonitorConfig order ?m0 ep i)) = ?rest"
    by (simp only: r0 len [symmetric]) simp
  have one: "\<And>exp. matchExpressionsLoop [exp] [] =
        (if Operator exp = ''In'' then
          [Dict [''action'' \<mapsto> Str ''keep'',
                 ''source_labels'' \<mapsto> Seq [Str (''__meta_kubernetes_service_label_'' @ sanitizeLabelName (Key exp))],
                 ''regex'' \<mapsto> Str (Join (Values exp) ''|'')]]
        else if Operator exp = ''NotIn'' then
          [Dict [''action'' \<mapsto> Str ''drop'',
                 ''source_labels'' \<mapsto> Seq [Str (''__meta_kubernetes_service_label_'' @ sanitizeLabelName (Key exp))],
                 ''regex'' \<mapsto> Str (Join (Values exp) ''|'')]]
        else if Operator exp = ''Exists'' then
          [Dict [''action'' \<mapsto> Str ''keep'',
                 ''source_labels'' \<mapsto> Seq [Str (''__meta_kubernetes_service_label_'' @ sanitizeLabelName (Key exp))],
                 ''regex'' \<mapsto> Str ''.+'']]
        else if Operator exp = ''DoesNotExist'' then
          [Dict [''action'' \<mapsto> Str ''drop'',
                 ''source_labels'' \<mapsto> Seq [Str (''__meta_kubernetes_service_label_'' @ sanitizeLabelName (Key exp))],
                 ''regex'' \<mapsto> Str ''.+'']]
        else [])"
    by (simp add: operator_defs)
  have rules: "relabel_configs (generateServiceMonitorConfig order m ep i) =
      ?labels @
      concat (map (\<lambda>exp. matchExpressionsLoop [exp] [])
        (MatchExpressions (ServiceMonitorSpec.Selector (ServiceMonitor.Spec m)))) @
      ?rest"
    by (simp only: relabel_configs_blocks matchExpressionsLoop_concat [of "MatchExpressions (ServiceMonitorSpec.Selector (ServiceMonitor.Spec m))"])
  show ?thesis
    unfolding tk dr
    by (rule conjI) (simp only: rules one, rule Join_closed)
qed

text \<open>
  Claim C4 at the example monitor: \<open>tier In [a, b]\<close> gives keep with the regex
  \<open>a|b\<close>, \<open>tier NotIn [a, b]\<close> gives drop with the same regex, \<open>env Exists\<close> gives
  keep with \<open>.+\<close>, \<open>legacy DoesNotExist\<close> gives drop with \<open>.+\<close>, and the expression
  with the operator \<open>Gt\<close> gives nothing; the four rules stand after the rule of the
  exact-match label and before the namespace rule.
\<close>

theorem matchExpressions_operator_rules_witness:
  "relabel_configs (generateServiceMonitorConfig (visitKeys [''team'']) tierMonitor webEndpoint 0) =
     [Dict [''action'' \<mapsto> Str ''keep'',
            ''source_labels'' \<mapsto> Seq [Str ''__meta_kubernetes_service_label_team''],
            ''regex'' \<mapsto> Str ''x''],
      Dict [''action'' \<mapsto> Str ''keep'',
            ''source_labels'' \<mapsto> Seq [Str ''__meta_kubernetes_service_label_tier''],
            ''regex'' \<mapsto> Str ''a|b''],
      Dict [''action'' \<mapsto> Str ''drop'',
            ''source_labels'' \<mapsto> Seq [Str ''__meta_kubernetes_service_label_tier''],
            ''regex'' \<mapsto> Str ''a|b''],
      Dict [''action'' \<mapsto> Str ''keep'',
            ''source_labels'' \<mapsto> Seq [Str ''__meta_kubernetes_service_label_env''],
            ''regex'' \<mapsto> Str ''.+''],
      Dict [''action'' \<mapsto> Str ''drop'',
            ''source_labels'' \<mapsto> Seq [Str ''__meta_kubernetes_service_label_legacy''],
            ''regex'' \<mapsto> Str ''.+''],
      Dict [''action'' \<mapsto> Str ''keep'',
            ''source_labels'' \<mapsto> Seq [Str ''__meta_kubernetes_namespace''],
            ''regex'' \<mapsto> Str ''ns1|ns2''],
      Dict [''action'' \<mapsto> Str ''keep'',
            ''source_labels'' \<mapsto> Seq [Str ''__meta_kubernetes_endpoint_port_name''],
            ''regex'' \<mapsto> Str ''web''],
      Dict [''source_labels'' \<mapsto> Seq [Str ''__meta_kubernetes_namespace''],
            ''target_label'' \<mapsto> Str ''namespace''],
      Dict [''action'' \<mapsto> Str ''labelmap'',
            ''regex'' \<mapsto> Str ''__meta_kubernetes_service_label_(.+)'',
            ''replacement'' \<mapsto> Str ''svc_$1''],
      Dict [''action'' \<mapsto> Str ''replace'',
            ''target_label'' \<mapsto> Str ''__meta_kubernetes_pod_label_pod_template_hash'',
            ''replacement'' \<mapsto> Str []],
      Dict [''action'' \<mapsto> Str ''labelmap'',
            ''regex'' \<mapsto> Str ''__meta_kubernetes_pod_label_(.+)'',
            ''replacement'' \<mapsto> Str ''pod_$1''],
      Dict [''source_labels'' \<mapsto> Seq [Str ''__meta_kubernetes_service_name''],
            ''target_label'' \<mapsto> Str ''job'',
            ''replacement'' \<mapsto> Str ''${1}-web'']]
   \<and> Join [''a'', ''b''] ''|'' = ''a|b''"
proof -
  note rules = matchExpressions_operator_rules [where order = "visitKeys [''team'']" and m = tierMonitor
      and ep = webEndpoint and i = 0
      and exp = "\<lparr>Key = ''tier'', Operator = ''In'', Values = [''a'', ''b'']\<rparr>"]
  have a: "relabel_configs (generateServiceMonitorConfig (visitKeys [''team'']) tierMonitor webEndpoint 0) =
     [Dict [''action'' \<mapsto> Str ''keep'',
            ''source_labels'' \<mapsto> Seq [Str ''__meta_kubernetes_service_label_team''],
            ''regex'' \<mapsto> Str ''x''],
      Dict [''action'' \<mapsto> Str ''keep'',
            ''source_labels'' \<mapsto> Seq [Str ''__meta_kubernetes_service_label_tier''],
            ''regex'' \<mapsto> Str ''a|b''],
      Dict [''action'' \<mapsto> Str ''drop'',
            ''source_labels'' \<mapsto> Seq [Str ''__meta_kubernetes_service_label_tier''],
            ''regex'' \<mapsto> Str ''a|b''],
      Dict [''action'' \<mapsto> Str ''keep'',
            ''source_labels'' \<mapsto> Seq [Str ''__meta_kubernetes_service_label_env''],
            ''regex'' \<mapsto> Str ''.+''],
      Dict [''action'' \<mapsto> Str ''drop'',
            ''source_labels'' \<mapsto> Seq [Str ''__meta_kubernetes_service_label_legacy''],
            ''regex'' \<mapsto> Str ''.+''],
      Dict [''action'' \<mapsto> Str ''keep'',
            ''source_labels'' \<mapsto> Seq [Str ''__meta_kubernetes_namespace''],
            ''regex'' \<mapsto> Str ''ns1|ns2''],
      Dict [''action'' \<mapsto> Str ''keep'',
            ''source_labels'' \<mapsto> Seq [Str ''__meta_kubernetes_endpoint_port_name''],
            ''regex'' \<mapsto> Str ''web''],
      Dict [''source_labels'' \<mapsto> Seq [Str ''__meta_kubernetes_namespace''],
            ''target_label'' \<mapsto> Str ''namespace''],
      Dict [''action'' \<mapsto> Str ''labelmap'',
            ''regex'' \<mapsto> Str ''__meta_kubernetes_service_label_(.+)'',
            ''replacement'' \<mapsto> Str ''svc_$1''],
      Dict [''action'' \<mapsto> Str ''replace'',
            ''target_label'' \<mapsto> Str ''__meta_kubernetes_pod_label_pod_template_hash'',
            ''replacement'' \<mapsto> Str []],
      Dict [''action'' \<mapsto> Str ''labelmap'',
            ''regex'' \<mapsto> Str ''__meta_kubernetes_pod_label_(.+)'',
            ''replacement'' \<mapsto> Str ''pod_$1''],
      Dict [''source_labels'' \<mapsto> Seq [Str ''__meta_kubernetes_service_name''],
            ''target_label'' \<mapsto> Str ''job'',
            ''replacement'' \<mapsto> Str ''${1}-web'']]"
    using rules [THEN conjunct1]
    by (simp add: tier_without_expressions tier_fields tier_visit validLabelChar_def)
  have b: "Join [''a'', ''b''] ''|'' = ''a|b''"
    using rules [THEN conjunct2] by simp
  from a b show ?thesis by (rule conjI)
qed

text \<open>
  Claim C5. Every monitor gets at most one namespace filter, chosen by precedence: a
  non-empty list of names gives a keep rule whose regex is the names joined with \<open>|\<close>
  (whether or not \<open>Any\<close> is set); otherwise \<open>Any\<close> gives no rule; otherwise a keep rule
  whose regex is the namespace of the monitor. The rule stands between the rules of the
  selector and those of the port, and the output holds no other keep rule on the
  discovered namespace.
\<close>

theorem namespace_filter_precedence:
  "relabel_configs (generateServiceMonitorConfig order m ep i) =
     matchLabelsLoop (order (MatchLabels (ServiceMonitorSpec.Selector (ServiceMonitor.Spec m)))) [] @
     matchExpressionsLoop (MatchExpressions (ServiceMonitorSpec.Selector (ServiceMonitor.Spec m))) [] @
     (if MatchNames (NamespaceSelector (ServiceMonitor.Spec m)) \<noteq> [] then
        [Dict [''action'' \<mapsto> Str ''keep'',
               ''source_labels'' \<mapsto> Seq [Str ''__meta_kubernetes_namespace''],
               ''regex'' \<mapsto> Str (Join (MatchNames (NamespaceSelector (ServiceMonitor.Spec m))) ''|'')]]
      else if Any (NamespaceSelector (ServiceMonitor.Spec m)) then []
      else
        [Dict [''action'' \<mapsto> Str ''keep'',
               ''source_labels'' \<mapsto> Seq [Str ''__meta_kubernetes_namespace''],
               ''regex'' \<mapsto> Str (ServiceMonitor.Namespace m)]]) @
     portFilter ep [] @ properLabels [] @ defaultJobName ep [] @ jobLabelName m ep []
   \<and> filter namespaceFilterRule (relabel_configs (generateServiceMonitorConfig order m ep i)) =
     (if MatchNames (NamespaceSelector (ServiceMonitor.Spec m)) \<noteq> [] then
        [Dict [''action'' \<mapsto> Str ''keep'',
               ''source_labels'' \<mapsto> Seq [Str ''__meta_kubernetes_namespace''],
               ''regex'' \<mapsto> Str (Join (MatchNames (NamespaceSelector (ServiceMonitor.Spec m))) ''|'')]]
      else if Any (NamespaceSelector (ServiceMonitor.Spec m)) then []
      else
        [Dict [''action'' \<mapsto> Str ''keep'',
               ''source_labels'' \<mapsto> Seq [Str ''__meta_kubernetes_namespace''],
               ''regex'' \<mapsto> Str (ServiceMonitor.Namespace m)]])
   \<and> Join (MatchNames (NamespaceSelector (ServiceMonitor.Spec m))) ''|'' =
     (case MatchNames (NamespaceSelector (ServiceMonitor.Spec m)) of
        [] \<Rightarrow> []
      | n # rest \<Rightarrow> n @ concat (map (\<lambda>n'. ''|'' @ n') rest))"
proof -
  let ?ns = "(if MatchNames (NamespaceSelector (ServiceMonitor.Spec m)) \<noteq> [] then
        [Dict [''action'' \<mapsto> Str ''keep'',
               ''source_labels'' \<mapsto> Seq [Str ''__meta_kubernetes_namespace''],
               ''regex'' \<mapsto> Str (Join (MatchNames (NamespaceSelector (ServiceMonitor.Spec m))) ''|'')]]
      else if Any (NamespaceSelector (ServiceMonitor.Spec m)) then []
      else
        [Dict [''action'' \<mapsto> Str ''keep'',
               ''source_labels'' \<mapsto> Seq [Str ''__meta_kubernetes_namespace''],
               ''regex'' \<mapsto> Str (ServiceMonitor.Namespace m)]])"
  have ns: "namespaceFilter m [] = ?ns"
    by (simp add: namespaceFilter_def Let_def)
  have f_ns: "filter namespaceFilterRule ?ns = ?ns"
    by (simp add: namespaceFilterRule_def field_def)
  have f_port: "filter namespaceFilterRule (portFilter ep []) = []"
    by (simp add: portFilter_def namespaceFilterRule_def field_def)
  have f_proper: "filter namespaceFilterRule (properLabels []) = []"
    by (simp add: properLabels_def namespaceFilterRule_def field_def)
  have f_job: "filter namespaceFilterRule (defaultJobName ep []) = []"
    by (simp add: defaultJobName_def namespaceFilterRule_def field_def)
  have f_label: "filter namespaceFilterRule (jobLabelName m ep []) = []"
    by (simp add: jobLabelName_def namespaceFilterRule_def field_def)
  have blocks: "relabel_configs (generateServiceMonitorConfig order m ep i) =
     matchLabelsLoop (order (MatchLabels (ServiceMonitorSpec.Selector (ServiceMonitor.Spec m)))) [] @
     matchExpressionsLoop (MatchExpressions (ServiceMonitorSpec.Selector (ServiceMonitor.Spec m))) [] @
     ?ns @ portFilter ep [] @ properLabels [] @ defaultJobName ep [] @ jobLabelName m ep []"
    by (simp only: relabel_configs_blocks ns)
  have "filter namespaceFilterRule (relabel_configs (generateServiceMonitorConfig order m ep i)) = ?ns"
    by (simp only: blocks filter_append filter_matchLabelsLoop filter_matchExpressionsLoop
        f_ns f_port f_proper f_job f_label append_Nil append_Nil2)
  with blocks show ?thesis by (intro conjI) (assumption, assumption, rule Join_closed)
qed

text \<open>
  Claim C5 at the example monitor, whose selector sets \<open>Any\<close> and the names \<open>ns1\<close>
  and \<open>ns2\<close>: the one namespace filter of the output is the keep rule with the regex
  \<open>ns1|ns2\<close>. With \<open>Any\<close> and no names there is none, and with neither it is the keep
  rule with the namespace of the monitor.
\<close>

theorem namespace_filter_precedence_witness:
  "filter namespaceFilterRule
      (relabel_configs (generateServiceMonitorConfig (visitKeys [''team'']) tierMonitor webEndpoint 0)) =
     [Dict [''action'' \<mapsto> Str ''keep'',
            ''source_labels'' \<mapsto> Seq [Str ''__meta_kubernetes_namespace''],
            ''regex'' \<mapsto> Str ''ns1|ns2'']]
   \<and> Join [''ns1'', ''ns2''] ''|'' = ''ns1|ns2''
   \<and> filter namespaceFilterRule
      (relabel_configs (generateServiceMonitorConfig (visitKeys [''team''])
         (tierMonitor\<lparr>ServiceMonitor.Spec := (ServiceMonitor.Spec tierMonitor)
            \<lparr>NamespaceSelector := \<lparr>Any = True, MatchNames = []\<rparr>\<rparr>\<rparr>) webEndpoint 0)) = []
   \<and> filter namespaceFilterRule
      (relabel_configs (generateServiceMonitorConfig (visitKeys [''team'']) (teamMonitor ''m'') webEndpoint 0)) =
     [Dict [''action'' \<mapsto> Str ''keep'',
            ''source_labels'' \<mapsto> Seq [Str ''__meta_kubernetes_namespace''],
            ''regex'' \<mapsto> Str ''default'']]"
proof -
  note names = namespace_filter_precedence [where order = "visitKeys [''team'']" and m = tierMonitor
      and ep = webEndpoint and i = 0]
  note any = namespace_filter_precedence [where order = "visitKeys [''team'']"
      and m = "tierMonitor\<lparr>ServiceMonitor.Spec := (ServiceMonitor.Spec tierMonitor)
            \<lparr>NamespaceSelector := \<lparr>Any = True, MatchNames = []\<rparr>\<rparr>\<rparr>"
      and ep = webEndpoint and i = 0]
  note own = namespace_filter_precedence [where order = "visitKeys [''team'']" and m = "teamMonitor ''m''"
      and ep = webEndpoint and i = 0]
  have a: "filter namespaceFilterRule
      (relabel_configs (generateServiceMonitorConfig (visitKeys [''team'']) tierMonitor webEndpoint 0)) =
     [Dict [''action'' \<mapsto> Str ''keep'',
            ''source_labels'' \<mapsto> Seq [Str ''__meta_kubernetes_namespace''],
            ''regex'' \<mapsto> Str ''ns1|ns2'']]"
    using names [THEN conjunct2, THEN conjunct1] names [THEN conjunct2, THEN conjunct2]
    by (simp add: tier_fields)
  have b: "Join [''ns1'', ''ns2''] ''|'' = ''ns1|ns2''"
    using names [THEN conjunct2, THEN conjunct2] by (simp add: tier_fields)
  have c: "filter namespaceFilterRule
      (relabel_configs (generateServiceMonitorConfig (visitKeys [''team''])
         (tierMonitor\<lparr>ServiceMonitor.Spec := (ServiceMonitor.Spec tierMonitor)
            \<lparr>NamespaceSelector := \<lparr>Any = True, MatchNames = []\<rparr>\<rparr>\<rparr>) webEndpoint 0)) = []"
    using any [THEN conjunct2, THEN conjunct1] by simp
  have d: "filter namespaceFilterRule
      (relabel_configs (generateServiceMonitorConfig (visitKeys [''team'']) (teamMonitor ''m'') webEndpoint 0)) =
     [Dict [''action'' \<mapsto> Str ''keep'',
            ''source_labels'' \<mapsto> Seq [Str ''__meta_kubernetes_namespace''],
            ''regex'' \<mapsto> Str ''default'']]"
    using own [THEN conjunct2, THEN conjunct1] by (simp add: teamMonitor_def)
  from a b c d show ?thesis by (intro conjI)
qed

text \<open>
  Claim C6. For every alerting target the scheme is \<open>http\<close> when unset, and the relabel
  rules are, in this order: a keep rule on the discovered service name whose regex is the
  name of the target, a keep rule on the discovered namespace whose regex is its
  namespace, then at most one port filter, where a string port comes before a nonzero
  numeric port.
\<close>

theorem alertmanager_relabelings:
  "field (generateAlertmanagerConfig am) ''scheme'' =
     Some (Str (if AlertmanagerEndpoints.Scheme am = [] then ''http'' else AlertmanagerEndpoints.Scheme am))
   \<and> relabel_configs (generateAlertmanagerConfig am) =
     [Dict [''action'' \<mapsto> Str ''keep'',
            ''source_labels'' \<mapsto> Seq [Str ''__meta_kubernetes_service_name''],
            ''regex'' \<mapsto> Str (AlertmanagerEndpoints.Name am)],
      Dict [''action'' \<mapsto> Str ''keep'',
            ''source_labels'' \<mapsto> Seq [Str ''__meta_kubernetes_namespace''],
            ''regex'' \<mapsto> Str (AlertmanagerEndpoints.Namespace am)]] @
     (if StrVal (AlertmanagerEndpoints.Port am) \<noteq> [] then
        [Dict [''action'' \<mapsto> Str ''keep'',
               ''source_labels'' \<mapsto> Seq [Str ''__meta_kubernetes_endpoint_port_name''],
               ''regex'' \<mapsto> Str (IntOrString_String (AlertmanagerEndpoints.Port am))]]
      else if IntVal (AlertmanagerEndpoints.Port am) \<noteq> 0 then
        [Dict [''action'' \<mapsto> Str ''keep'',
               ''source_labels'' \<mapsto> Seq [Str ''__meta_kubernetes_container_port_number''],
               ''regex'' \<mapsto> Str (IntOrString_String (AlertmanagerEndpoints.Port am))]]
      else [])"
  by (simp add: generateAlertmanagerConfig_def relabel_configs_def field_def elements_def Let_def)

section \<open>The peers loop in closed form\<close>

lemma sint_succ_below:
  fixes i replicas :: "32 word"
  assumes "i <s replicas"
  shows "sint (i + 1) = sint i + 1"
proof -
  have lt: "sint i < sint replicas"
    using assms by (simp add: word_sless_alt)
  have "sint replicas < 2 ^ 31"
    using sint_lt [of replicas] by simp
  moreover have "- (2 ^ 31) \<le> sint i"
    using sint_ge [of i] by simp
  ultimately have "signed_take_bit 31 (sint i + 1) = sint i + 1"
    using lt by (intro signed_take_bit_int_eq_self) simp_all
  moreover have "sint (i + 1) = signed_take_bit 31 (sint i + 1)"
    using sint_word_ariths(1) [of i 1] by simp
  ultimately show ?thesis by simp
qed

lemma peersLoop_closed:
  assumes "0 \<le> sint i"
  shows "peersLoop ns name replicas i commands =
     commands @ map (\<lambda>k. ''-mesh.peer='' @ name @ ''-'' @ Itoa (int k) @ ''.alertmanager.'' @ ns @ ''.svc'')
       [nat (sint i) ..< nat (sint replicas)]"
  using assms
proof (induction ns name replicas i commands rule: peersLoop.induct)
  case (1 ns name replicas i commands)
  show ?case
  proof (cases "i <s replicas")
    case True
    have step: "sint (i + 1) = sint i + 1"
      by (rule sint_succ_below [OF True])
    have lt: "sint i < sint replicas"
      using True by (simp add: word_sless_alt)
    have lt_nat: "nat (sint i) < nat (sint replicas)"
      using lt "1.prems" by simp
    have suc: "Suc (nat (sint i)) = nat (sint i + 1)"
      using "1.prems" by simp
    have up: "[nat (sint i) ..< nat (sint replicas)] = nat (sint i) # [nat (sint i + 1) ..< nat (sint replicas)]"
      unfolding suc [symmetric] by (rule upt_conv_Cons [OF lt_nat])
    have "peersLoop ns name replicas i commands =
        peersLoop ns name replicas (i + 1)
          (commands @ [''-mesh.peer='' @ name @ ''-'' @ Itoa (sint i) @ ''.'' @ ''alertmanager'' @ ''.'' @ ns @ ''.svc''])"
      using True by (subst peersLoop.simps) simp
    also have "\<dots> = (commands @ [''-mesh.peer='' @ name @ ''-'' @ Itoa (sint i) @ ''.'' @ ''alertmanager'' @ ''.'' @ ns @ ''.svc'']) @
        map (\<lambda>k. ''-mesh.peer='' @ name @ ''-'' @ Itoa (int k) @ ''.alertmanager.'' @ ns @ ''.svc'')
          [nat (sint (i + 1)) ..< nat (sint replicas)]"
      using "1.prems" step by (intro "1.IH" [OF True]) simp
    finally show ?thesis
      unfolding up step using "1.prems" by simp
  next
    case False
    then have "\<not> sint i < sint replicas"
      by (simp add: word_sless_alt)
    then have "[nat (sint i) ..< nat (sint replicas)] = []"
      using "1.prems" by simp
    moreover have "peersLoop ns name replicas i commands = commands"
      using False by (subst peersLoop.simps) simp
    ultimately show ?thesis by simp
  qed
qed


lemma peersLoop_from_0:
  "peersLoop ns name replicas 0 commands =
     commands @ map (\<lambda>k. ''-mesh.peer='' @ name @ ''-'' @ Itoa (int k) @ ''.alertmanager.'' @ ns @ ''.svc'')
       [0 ..< nat (sint replicas)]"
  using peersLoop_closed [of 0 ns name replicas commands] by simp

lemma clamp_sint:
  fixes r :: "32 word"
  shows "sint (if r <s 1 then 1 else r) = max 1 (sint r)"
  by (simp add: word_sless_alt max_def)

lemma Containers_makeStatefulSet:
  "Containers (PodTemplateSpec.Spec (Template (StatefulSet.Spec (makeStatefulSet am old)))) =
   Containers (PodTemplateSpec.Spec (Template
     (makeStatefulSetSpec (Alertmanager.Namespace am) (Alertmanager.Name am)
        ((if BaseImage (Alertmanager.Spec am) = [] then ''quay.io/prometheus/alertmanager''
          else BaseImage (Alertmanager.Spec am)) @ '':'' @
         (if Version (Alertmanager.Spec am) = [] then ''v0.5.1'' else Version (Alertmanager.Spec am)))
        (if Version (Alertmanager.Spec am) = [] then ''v0.5.1'' else Version (Alertmanager.Spec am))
        (if AlertmanagerSpec.Replicas (Alertmanager.Spec am) <s 1 then 1
         else AlertmanagerSpec.Replicas (Alertmanager.Spec am)))))"
  by (cases old; cases "Storage (Alertmanager.Spec am)") (simp_all add: makeStatefulSet_def Let_def)

lemma Replicas_makeStatefulSet:
  "StatefulSetSpec.Replicas (StatefulSet.Spec (makeStatefulSet am old)) =
     Some (if AlertmanagerSpec.Replicas (Alertmanager.Spec am) <s 1 then 1
           else AlertmanagerSpec.Replicas (Alertmanager.Spec am))"
  by (cases old; cases "Storage (Alertmanager.Spec am)")
    (simp_all add: makeStatefulSet_def makeStatefulSetSpec_def Let_def)

lemma Itoa_ports: "Itoa 9093 = ''9093''" "Itoa 6783 = ''6783''"
  by (simp_all add: Itoa_def decimal.simps digit_def)

section \<open>Properties of the generated manifests\<close>

text \<open>
  Claim C7. For every Alertmanager object, \<open>makeStatefulSet\<close> raises a replica count
  below 1 to 1 and never rejects it, and the command line of the alerting container
  (the first container, named after the object) is the five fixed arguments followed by
  one peer argument per effective replica, \<open>-mesh.peer=<name>-<i>.alertmanager.<namespace>.svc\<close>
  for \<open>i\<close> from 0 to the replica count less one, in this order. The sidecar has no
  command.
\<close>

theorem replicas_floor_and_peers:
  "map_option sint (StatefulSetSpec.Replicas (StatefulSet.Spec (makeStatefulSet am old))) =
     Some (max 1 (sint (AlertmanagerSpec.Replicas (Alertmanager.Spec am))))
   \<and> map Container.Name
       (Containers (PodTemplateSpec.Spec (Template (StatefulSet.Spec (makeStatefulSet am old))))) =
     [Alertmanager.Name am, ''config-reloader'']
   \<and> map Command
       (Containers (PodTemplateSpec.Spec (Template (StatefulSet.Spec (makeStatefulSet am old))))) =
     [[''/bin/alertmanager'',
       ''-config.file=/etc/alertmanager/config/alertmanager.yaml'',
       ''-web.listen-address=:9093'',
       ''-mesh.listen-address=:6783'',
       ''-storage.path=/etc/alertmanager/data''] @
      map (\<lambda>k. ''-mesh.peer='' @ Alertmanager.Name am @ ''-'' @ Itoa (int k) @
                ''.alertmanager.'' @ Alertmanager.Namespace am @ ''.svc'')
        [0 ..< nat (max 1 (sint (AlertmanagerSpec.Replicas (Alertmanager.Spec am))))],
      []]"
proof (intro conjI)
  show "map_option sint (StatefulSetSpec.Replicas (StatefulSet.Spec (makeStatefulSet am old))) =
     Some (max 1 (sint (AlertmanagerSpec.Replicas (Alertmanager.Spec am))))"
    by (simp only: Replicas_makeStatefulSet option.map clamp_sint)
next
  show "map Container.Name
       (Containers (PodTemplateSpec.Spec (Template (StatefulSet.Spec (makeStatefulSet am old))))) =
     [Alertmanager.Name am, ''config-reloader'']"
    by (simp only: Containers_makeStatefulSet) (simp add: makeStatefulSetSpec_def Let_def)
next
  show "map Command
       (Containers (PodTemplateSpec.Spec (Template (StatefulSet.Spec (makeStatefulSet am old))))) =
     [[''/bin/alertmanager'',
       ''-config.file=/etc/alertmanager/config/alertmanager.yaml'',
       ''-web.listen-address=:9093'',
       ''-mesh.listen-address=:6783'',
       ''-storage.path=/etc/alertmanager/data''] @
      map (\<lambda>k. ''-mesh.peer='' @ Alertmanager.Name am @ ''-'' @ Itoa (int k) @
                ''.alertmanager.'' @ Alertmanager.Namespace am @ ''.svc'')
        [0 ..< nat (max 1 (sint (AlertmanagerSpec.Replicas (Alertmanager.Spec am))))],
      []]"
    by (simp only: Containers_makeStatefulSet)
      (simp add: makeStatefulSetSpec_def Let_def peersLoop_from_0 clamp_sint Itoa_ports)
qed

text \<open>
  Claim C7 at the replica counts 0 and 3: the manifest has one replica and the peer of
  ordinal 0 only, and three replicas and the peers of the ordinals 0, 1 and 2.
\<close>

theorem replicas_floor_and_peers_witness:
  "map_option sint (StatefulSetSpec.Replicas (StatefulSet.Spec (makeStatefulSet (exampleAlertmanager 0) None))) = Some 1
   \<and> map Command (Containers (PodTemplateSpec.Spec (Template (StatefulSet.Spec (makeStatefulSet (exampleAlertmanager 0) None))))) =
     [[''/bin/alertmanager'',
       ''-config.file=/etc/alertmanager/config/alertmanager.yaml'',
       ''-web.listen-address=:9093'',
       ''-mesh.listen-address=:6783'',
       ''-storage.path=/etc/alertmanager/data'',
       ''-mesh.peer=main-0.alertmanager.monitoring.svc''],
      []]
   \<and> map_option sint (StatefulSetSpec.Replicas (StatefulSet.Spec (makeStatefulSet (exampleAlertmanager 3) None))) = Some 3
   \<and> map Command (Containers (PodTemplateSpec.Spec (Template (StatefulSet.Spec (makeStatefulSet (exampleAlertmanager 3) None))))) =
     [[''/bin/alertmanager'',
       ''-config.file=/etc/alertmanager/config/alertmanager.yaml'',
       ''-web.listen-address=:9093'',
       ''-mesh.listen-address=:6783'',
       ''-storage.path=/etc/alertmanager/data'',
       ''-mesh.peer=main-0.alertmanager.monitoring.svc'',
       ''-mesh.peer=main-1.alertmanager.monitoring.svc'',
       ''-mesh.peer=main-2.alertmanager.monitoring.svc''],
      []]"
proof -
  have fields: "AlertmanagerSpec.Replicas (Alertmanager.Spec (exampleAlertmanager n)) = n"
    "Alertmanager.Name (exampleAlertmanager n) = ''main''"
    "Alertmanager.Namespace (exampleAlertmanager n) = ''monitoring''" for n
    by (simp_all add: exampleAlertmanager_def)
  note zero = replicas_floor_and_peers [of "exampleAlertmanager 0" None, unfolded fields]
  note three = replicas_floor_and_peers [of "exampleAlertmanager 3" None, unfolded fields]
  have a: "map_option sint (StatefulSetSpec.Replicas (StatefulSet.Spec (makeStatefulSet (exampleAlertmanager 0) None))) = Some 1"
    using zero [THEN conjunct1] by simp
  have b: "map Command (Containers (PodTemplateSpec.Spec (Template (StatefulSet.Spec (makeStatefulSet (exampleAlertmanager 0) None))))) =
     [[''/bin/alertmanager'',
       ''-config.file=/etc/alertmanager/config/alertmanager.yaml'',
       ''-web.listen-address=:9093'',
       ''-mesh.listen-address=:6783'',
       ''-storage.path=/etc/alertmanager/data'',
       ''-mesh.peer=main-0.alertmanager.monitoring.svc''],
      []]"
    using zero [THEN conjunct2, THEN conjunct2]
    by (simp add: upt_rec Itoa_def decimal.simps digit_def)
  have c: "map_option sint (StatefulSetSpec.Replicas (StatefulSet.Spec (makeStatefulSet (exampleAlertmanager 3) None))) = Some 3"
    using three [THEN conjunct1] by simp
  have d: "map Command (Containers (PodTemplateSpec.Spec (Template (StatefulSet.Spec (makeStatefulSet (exampleAlertmanager 3) None))))) =
     [[''/bin/alertmanager'',
       ''-config.file=/etc/alertmanager/config/alertmanager.yaml'',
       ''-web.listen-address=:9093'',
       ''-mesh.listen-address=:6783'',
       ''-storage.path=/etc/alertmanager/data'',
       ''-mesh.peer=main-0.alertmanager.monitoring.svc'',
       ''-mesh.peer=main-1.alertmanager.monitoring.svc'',
       ''-mesh.peer=main-2.alertmanager.monitoring.svc''],
      []]"
    using three [THEN conjunct2, THEN conjunct2]
    by (simp add: upt_rec Itoa_def decimal.simps digit_def)
  from a b c d show ?thesis by (intro conjI)
qed

text \<open>
  Claim C8. Without a storage spec the pod has, besides the configuration volume, one
  empty-directory volume named \<open><name>-db\<close>, and the manifest has no claim template.
  With a storage spec the pod has the configuration volume only, and the manifest has
  one claim template named \<open><name>-db\<close> with the access mode read-write-once and the
  resources and the selector of the storage spec; the claim carries the storage-class
  annotation, and only that one, exactly when the class name is not empty.
\<close>

theorem volume_policy:
  "(case Storage (Alertmanager.Spec am) of
      None \<Rightarrow>
        Volumes (PodTemplateSpec.Spec (Template (StatefulSet.Spec (makeStatefulSet am old)))) =
          [\<lparr>Volume.Name = ''config-volume'',
            VolumeSource =
              \<lparr>EmptyDir = None,
               ConfigMap = Some \<lparr>LocalObjectReference = \<lparr>LocalObjectReference.Name = Alertmanager.Name am\<rparr>\<rparr>\<rparr>\<rparr>,
           \<lparr>Volume.Name = Alertmanager.Name am @ ''-db'',
            VolumeSource = \<lparr>EmptyDir = Some \<lparr>Medium = []\<rparr>, ConfigMap = None\<rparr>\<rparr>]
        \<and> VolumeClaimTemplates (StatefulSet.Spec (makeStatefulSet am old)) = []
    | Some vc \<Rightarrow>
        Volumes (PodTemplateSpec.Spec (Template (StatefulSet.Spec (makeStatefulSet am old)))) =
          [\<lparr>Volume.Name = ''config-volume'',
            VolumeSource =
              \<lparr>EmptyDir = None,
               ConfigMap = Some \<lparr>LocalObjectReference = \<lparr>LocalObjectReference.Name = Alertmanager.Name am\<rparr>\<rparr>\<rparr>\<rparr>]
        \<and> VolumeClaimTemplates (StatefulSet.Spec (makeStatefulSet am old)) =
          [\<lparr>PersistentVolumeClaim.ObjectMeta =
              \<lparr>ObjectMeta.Name = Alertmanager.Name am @ ''-db'',
               Labels = Map.empty,
               Annotations =
                 (if Class vc = [] then Map.empty
                  else [''volume.beta.kubernetes.io/storage-class'' \<mapsto> Class vc])\<rparr>,
            PersistentVolumeClaim.Spec =
              \<lparr>AccessModes = [''ReadWriteOnce''],
               PersistentVolumeClaimSpec.Resources = StorageSpec.Resources vc,
               PersistentVolumeClaimSpec.Selector = StorageSpec.Selector vc\<rparr>\<rparr>])"
  by (cases old; cases "Storage (Alertmanager.Spec am)")
    (simp_all add: makeStatefulSet_def makeStatefulSetSpec_def Let_def ReadWriteOnce_def)

text \<open>
  Claim C9. The manifest built with a previous manifest is the manifest built without
  one, with the annotations of the previous manifest in place of its own; without a
  previous manifest it has no annotations. Hence two previous manifests with the same
  annotations give the same manifest.
\<close>

theorem previous_annotations_only:
  "makeStatefulSet am (Some previous) =
     (makeStatefulSet am None)
       \<lparr>StatefulSet.ObjectMeta := (StatefulSet.ObjectMeta (makeStatefulSet am None))
          \<lparr>Annotations := Annotations (StatefulSet.ObjectMeta previous)\<rparr>\<rparr>
   \<and> Annotations (StatefulSet.ObjectMeta (makeStatefulSet am (Some previous))) =
     Annotations (StatefulSet.ObjectMeta previous)
   \<and> Annotations (StatefulSet.ObjectMeta (makeStatefulSet am None)) = Map.empty
   \<and> (Annotations (StatefulSet.ObjectMeta previous) = Annotations (StatefulSet.ObjectMeta previous')
      \<longrightarrow> makeStatefulSet am (Some previous) = makeStatefulSet am (Some previous'))"
  by (cases "Storage (Alertmanager.Spec am)") (simp_all add: makeStatefulSet_def Let_def)

text \<open>
  Claim C9 at two previous manifests that differ in name, labels and spec and agree on
  their annotations.
\<close>

theorem previous_annotations_only_witness:
  "Annotations (StatefulSet.ObjectMeta previousA) = Annotations (StatefulSet.ObjectMeta previousB)
   \<and> ObjectMeta.Name (StatefulSet.ObjectMeta previousA) \<noteq> ObjectMeta.Name (StatefulSet.ObjectMeta previousB)
   \<and> makeStatefulSet (exampleAlertmanager 3) (Some previousA) =
     makeStatefulSet (exampleAlertmanager 3) (Some previousB)
   \<and> Annotations (StatefulSet.ObjectMeta (makeStatefulSet (exampleAlertmanager 3) (Some previousA))) =
     [''owner'' \<mapsto> ''ops'']"
proof -
  have same: "Annotations (StatefulSet.ObjectMeta previousA) = Annotations (StatefulSet.ObjectMeta previousB)"
    by (simp add: previousA_def previousB_def)
  have names: "ObjectMeta.Name (StatefulSet.ObjectMeta previousA) \<noteq> ObjectMeta.Name (StatefulSet.ObjectMeta previousB)"
    by (simp add: previousA_def previousB_def)
  have ann: "Annotations (StatefulSet.ObjectMeta previousA) = [''owner'' \<mapsto> ''ops'']"
    by (simp add: previousA_def)
  have eq: "makeStatefulSet (exampleAlertmanager 3) (Some previousA) =
      makeStatefulSet (exampleAlertmanager 3) (Some previousB)"
    using previous_annotations_only [of "exampleAlertmanager 3" previousA previousB] same by blast
  have kept: "Annotations (StatefulSet.ObjectMeta (makeStatefulSet (exampleAlertmanager 3) (Some previousA))) =
      Annotations (StatefulSet.ObjectMeta previousA)"
    using previous_annotations_only [of "exampleAlertmanager 3" previousA previousB] by blast
  from same names eq kept [unfolded ann] show ?thesis by (intro conjI)
qed

text \<open>
  Claim C10. \<open>makeStatefulSetService\<close> returns the same service for every argument:
  it is named \<open>alertmanager\<close>, has the cluster IP \<open>None\<close>, the two TCP ports \<open>web\<close> 9093
  and \<open>mesh\<close> 6783 (each targeting its own number), and selects the pods labelled
  \<open>app: alertmanager\<close>.
\<close>

theorem service_is_fixed:
  "makeStatefulSetService p = makeStatefulSetService q
   \<and> ObjectMeta.Name (Service.ObjectMeta (makeStatefulSetService p)) = ''alertmanager''
   \<and> ClusterIP (Service.Spec (makeStatefulSetService p)) = ''None''
   \<and> ServiceSpec.Ports (Service.Spec (makeStatefulSetService p)) =
     [\<lparr>ServicePort.Name = ''web'', ServicePort.Port = 9093,
       ServicePort.TargetPort = \<lparr>Type = intstr_Int, IntVal = 9093, StrVal = []\<rparr>,
       ServicePort.Protocol = ''TCP''\<rparr>,
      \<lparr>ServicePort.Name = ''mesh'', ServicePort.Port = 6783,
       ServicePort.TargetPort = \<lparr>Type = intstr_Int, IntVal = 6783, StrVal = []\<rparr>,
       ServicePort.Protocol = ''TCP''\<rparr>]
   \<and> ServiceSpec.Selector (Service.Spec (makeStatefulSetService p)) = [''app'' \<mapsto> ''alertmanager'']"
  by (simp add: makeStatefulSetService_def FromInt_def ProtocolTCP_def)

end
